theory Spec2Isabelle
  imports Main "HOL-Library.Word"
begin

unbundle bit_operations_syntax

section \<open>Errors and assertions\<close>

text \<open>
  The ways a call can end without returning: a thrown \<open>std::runtime_error\<close> with its
  message, a failed \<open>assert\<close> (which aborts the process), and an integer division by zero
  (which traps). \<open>ill_formed\<close> stands for a template instance that does not compile. The
  shared cell outlives the process, so every operation on a cell returns the cell's new
  contents next to its outcome.
\<close>

datatype error =
    runtime_error string
  | assertion_failure
  | division_by_zero
  | ill_formed string

text \<open>
  \<open>assert(c)\<close> from \<open><cassert>\<close>. The build decides whether assertions are compiled in:
  \<open>ndebug\<close> is \<open>True\<close> when \<open>NDEBUG\<close> is defined (a release build), and the assertion is
  then no code at all.
\<close>

definition cassert :: "bool \<Rightarrow> bool \<Rightarrow> error + unit" where
  "cassert ndebug c = (if ndebug \<or> c then Inr () else Inl assertion_failure)"

section \<open>Atomic.hpp: the atomic cell\<close>

datatype memory_order =
    memory_order_relaxed
  | memory_order_consume
  | memory_order_acquire
  | memory_order_release
  | memory_order_acq_rel
  | memory_order_seq_cst

text \<open>
  \<open>Order\<close> is the type of the compiler's \<open>__ATOMIC_*\<close> constants. The header's static
  assertions pin each of them to the value of the \<open>std::memory_order\<close> enumerator of the
  same name, which are 0 to 5 in the order of declaration.
\<close>

type_synonym Order = int

definition ATOMIC_RELAXED :: Order where "ATOMIC_RELAXED = 0"
definition ATOMIC_CONSUME :: Order where "ATOMIC_CONSUME = 1"
definition ATOMIC_ACQUIRE :: Order where "ATOMIC_ACQUIRE = 2"
definition ATOMIC_RELEASE :: Order where "ATOMIC_RELEASE = 3"
definition ATOMIC_ACQ_REL :: Order where "ATOMIC_ACQ_REL = 4"
definition ATOMIC_SEQ_CST :: Order where "ATOMIC_SEQ_CST = 5"

fun static_cast_Order :: "memory_order \<Rightarrow> Order" where
  "static_cast_Order memory_order_relaxed = 0"
| "static_cast_Order memory_order_consume = 1"
| "static_cast_Order memory_order_acquire = 2"
| "static_cast_Order memory_order_release = 3"
| "static_cast_Order memory_order_acq_rel = 4"
| "static_cast_Order memory_order_seq_cst = 5"

text \<open>
  \<open>native_order<Orders...>(order)\<close>: asserts that \<open>order\<close> is one of the template
  arguments and returns it as an \<open>Order\<close>.
\<close>

definition native_order :: "bool \<Rightarrow> Order list \<Rightarrow> memory_order \<Rightarrow> error + Order" where
  "native_order ndebug Orders order =
     (case cassert ndebug (static_cast_Order order \<in> set Orders) of
        Inl e \<Rightarrow> Inl e
      | Inr u \<Rightarrow> Inr (static_cast_Order order))"

text \<open>
  \<open>Atomic<T>::store(desired, order)\<close>. The cell is its stored value; \<open>is_fundamental\<close> is
  \<open>std::is_fundamental_v<T>\<close>, which selects the branch of the \<open>if constexpr\<close>. Both
  builtins write \<open>desired\<close> into the cell.
\<close>

definition store :: "bool \<Rightarrow> bool \<Rightarrow> 'a \<Rightarrow> memory_order \<Rightarrow> 'a \<Rightarrow> (error + unit) \<times> 'a" where
  "store ndebug is_fundamental desired order cell =
     (if is_fundamental then
        (case native_order ndebug [ATOMIC_RELAXED, ATOMIC_RELEASE, ATOMIC_SEQ_CST] order of
           Inl e \<Rightarrow> (Inl e, cell)
         | Inr ord \<Rightarrow> (Inr (), desired))
      else
        (case native_order ndebug
                [ATOMIC_RELAXED, ATOMIC_ACQUIRE, ATOMIC_CONSUME, ATOMIC_SEQ_CST] order of
           Inl e \<Rightarrow> (Inl e, cell)
         | Inr ord \<Rightarrow> (Inr (), desired)))"

text \<open>
  \<open>Atomic<T>::load(order)\<close>: both branches assert the same list of orders.
\<close>

definition load :: "bool \<Rightarrow> memory_order \<Rightarrow> 'a \<Rightarrow> (error + 'a) \<times> 'a" where
  "load ndebug order cell =
     (case native_order ndebug
             [ATOMIC_RELAXED, ATOMIC_ACQUIRE, ATOMIC_CONSUME, ATOMIC_SEQ_CST] order of
        Inl e \<Rightarrow> (Inl e, cell)
      | Inr ord \<Rightarrow> (Inr cell, cell))"

text \<open>
  The builtin \<open>__atomic_compare_exchange\<close> (and its \<open>_n\<close> form): if the cell equals
  \<open>expected\<close> it becomes \<open>desired\<close> and the result is true; otherwise \<open>expected\<close> receives
  the cell's value and the result is false. A weak exchange may also fail when the values
  are equal; \<open>spurious\<close> says whether it does this time. The result is the success flag and
  the new value of \<open>expected\<close>, next to the new cell.
\<close>

definition atomic_compare_exchange ::
  "'a \<Rightarrow> 'a \<Rightarrow> bool \<Rightarrow> bool \<Rightarrow> 'a \<Rightarrow> (bool \<times> 'a) \<times> 'a" where
  "atomic_compare_exchange expected desired weak spurious cell =
     (if cell = expected \<and> \<not> (weak \<and> spurious)
      then ((True, expected), desired)
      else ((False, cell), cell))"

definition compare_exchange_impl ::
  "bool \<Rightarrow> 'a \<Rightarrow> 'a \<Rightarrow> bool \<Rightarrow> bool \<Rightarrow> memory_order \<Rightarrow> memory_order \<Rightarrow> 'a
     \<Rightarrow> (error + bool \<times> 'a) \<times> 'a" where
  "compare_exchange_impl ndebug expected desired weak spurious success fail cell =
     (let sorder = static_cast_Order success in
      case native_order ndebug
             [ATOMIC_RELAXED, ATOMIC_CONSUME, ATOMIC_ACQUIRE, ATOMIC_SEQ_CST] fail of
        Inl e \<Rightarrow> (Inl e, cell)
      | Inr forder \<Rightarrow>
          (case cassert ndebug (sorder \<ge> forder) of
             Inl e \<Rightarrow> (Inl e, cell)
           | Inr u \<Rightarrow>
               (case atomic_compare_exchange expected desired weak spurious cell of
                  (r, cell') \<Rightarrow> (Inr r, cell'))))"

text \<open>
  \<open>compare_exchange_strong(expected, desired, order)\<close>, the overload with one order:
  not weak, so nothing is spurious.
\<close>

definition compare_exchange_strong ::
  "bool \<Rightarrow> 'a \<Rightarrow> 'a \<Rightarrow> memory_order \<Rightarrow> 'a \<Rightarrow> (error + bool \<times> 'a) \<times> 'a" where
  "compare_exchange_strong ndebug expected desired order cell =
     compare_exchange_impl ndebug expected desired False False order order cell"

section \<open>ProcessId.hpp, ProcessId.cpp: the extended process identifier\<close>

text \<open>
  \<open>pid_t\<close> is a signed 32-bit integer: a word, read with \<open>sint\<close>. The fields of a
  \<open>timeval\<close> are signed integers of the platform's \<open>time_t\<close> and \<open>suseconds_t\<close>; they are
  integers here, and each conversion to an unsigned type is written out with
  \<open>word_of_int\<close>, which reduces modulo the width as the C++ conversion does. \<open>time_t\<close>
  has 64 bits, so the values that \<open>start_time()\<close> casts to it fit.
\<close>

type_synonym pid_t = "32 word"

record timeval =
  tv_sec :: int
  tv_usec :: int

text \<open>
  \<open>struct ProcessId { Value value_; }\<close>, where \<open>Value\<close> is \<open>__uint128_t\<close> when 128-bit
  atomics are always lock-free and \<open>std::uint64_t\<close> otherwise: \<open>128 word ProcessId\<close> or
  \<open>64 word ProcessId\<close>. The defaulted comparison compares \<open>value_\<close>.
\<close>

datatype 'a ProcessId = ProcessId (value_bits: 'a)

text \<open>Decimal output of an integer, as \<open>operator<<\<close> and \<open>%u\<close> print it.\<close>

fun dec_nat :: "nat \<Rightarrow> string" where
  "dec_nat n =
     (if n < 10 then [''0123456789'' ! n]
      else dec_nat (n div 10) @ [''0123456789'' ! (n mod 10)])"

declare dec_nat.simps [simp del]

definition dec_int :: "int \<Rightarrow> string" where
  "dec_int i = (if i < 0 then CHR ''-'' # dec_nat (nat (- i)) else dec_nat (nat i))"

section \<open>ProcessId.cpp on Linux: the start-time probe\<close>

text \<open>
  What the probe sees of the system: for each path, whether \<open>open\<close> fails (with its
  \<open>errno\<close>), the first \<open>read\<close> fails, or the file has contents; the value of
  \<open>sysconf(_SC_CLK_TCK)\<close>; and \<open>boot_time\<close>, the static that \<open>get_boot_time()\<close> sets
  from \<open>/proc/stat\<close> when the library is loaded. The model is for LP64, where
  \<open>unsigned long\<close> and \<open>unsigned long long\<close> are both 64 bits wide.
\<close>

datatype proc_file = Open_fails nat | Read_fails nat | Contents string

record linux =
  proc_files :: "string \<Rightarrow> proc_file"
  sysconf_SC_CLK_TCK :: int
  boot_time :: int

text \<open>
  The loop of \<open>with_file_contents\<close>: read at most \<open>sz - 1\<close> bytes from the start of the
  file; nothing read is the error case; a full buffer means there may be more, so seek back
  and retry with 1024 bytes more; otherwise the bytes read are the buffer. A read of a
  \<open>/proc\<close> file yields all that fits.
\<close>

function read_all :: "string \<Rightarrow> nat \<Rightarrow> string option" where
  "read_all content sz =
     (let n = min (length content) (sz - 1) in
      if n = 0 then None
      else if n = sz - 1 then read_all content (sz + 1024)
      else Some (take n content))"
  by pat_completeness auto
termination
  by (relation "measure (\<lambda>(content, sz). length content + 2 - sz)") auto

declare read_all.simps [simp del]

text \<open>
  \<open>with_file_contents(fname, fn, err)\<close>. \<open>errno\<close> is threaded through: the value
  before the call goes in, the value after it comes out with the result. The callback
  \<open>fn\<close> runs with the buffer and the current \<open>errno\<close> and yields the new one; \<open>err\<close>
  is the result of the error callback, which takes no argument.
\<close>

definition with_file_contents ::
  "linux \<Rightarrow> nat \<Rightarrow> string \<Rightarrow> (nat \<Rightarrow> string \<Rightarrow> nat \<times> 'r) \<Rightarrow> 'r \<Rightarrow> nat \<times> 'r" where
  "with_file_contents lx errno fname fn err =
     (case proc_files lx fname of
        Open_fails e \<Rightarrow> (e, err)
      | Read_fails e \<Rightarrow> (e, err)
      | Contents content \<Rightarrow>
          (case read_all content (8 * 1024) of
             None \<Rightarrow> (errno, err)
           | Some buffer \<Rightarrow> fn errno buffer))"

text \<open>
  The buffer is handed on as a \<open>char const *\<close> after a NUL has been stored behind the
  bytes read: a C string, which ends at its first NUL.
\<close>

definition c_str :: "string \<Rightarrow> string" where
  "c_str buffer = takeWhile (\<lambda>c. c \<noteq> CHR 0x00) buffer"

subsection \<open>The C library's sscanf, for the conversions the probe uses\<close>

text \<open>
  \<open>sscanf\<close> is the C library's. It is modelled after the GNU C library's \<open>vfscanf\<close>
  for the directives of the probe's format: white space, ordinary characters, \<open>%*d\<close>,
  \<open>%*u\<close>, a negated one-character scanset \<open>%*[^c]\<close>, \<open>%c\<close> and \<open>%llu\<close>, with its
  return value and its effect on \<open>errno\<close>.
\<close>

definition isspace :: "char \<Rightarrow> bool" where
  "isspace c = (c \<in> set [CHR '' '', CHR 0x09, CHR 0x0A, CHR 0x0B, CHR 0x0C, CHR 0x0D])"

definition isdigit :: "char \<Rightarrow> bool" where
  "isdigit c = (c \<in> set ''0123456789'')"

definition digit_value :: "char \<Rightarrow> nat" where
  "digit_value c = of_char c - 48"

definition decimal :: "string \<Rightarrow> nat" where
  "decimal ds = foldl (\<lambda>n c. 10 * n + digit_value c) 0 ds"

definition ERANGE :: nat where
  "ERANGE = 34"

datatype directive =
    White_space
  | Ordinary char
  | Skip_d
  | Skip_u
  | Skip_not char
  | Conv_c
  | Conv_llu

text \<open>Reading a format string into its directives.\<close>

fun parse_format :: "string \<Rightarrow> directive list" where
  "parse_format [] = []"
| "parse_format (c # cs) =
     (if isspace c then White_space # parse_format cs
      else if c \<noteq> CHR ''%'' then Ordinary c # parse_format cs
      else if take 2 cs = ''*d'' then Skip_d # parse_format (drop 2 cs)
      else if take 2 cs = ''*u'' then Skip_u # parse_format (drop 2 cs)
      else if take 3 cs = ''*[^'' \<and> take 1 (drop 4 cs) = '']''
        then Skip_not (cs ! 3) # parse_format (drop 5 cs)
      else if take 1 cs = ''c'' then Conv_c # parse_format (drop 1 cs)
      else if take 3 cs = ''llu'' then Conv_llu # parse_format (drop 3 cs)
      else [])"

text \<open>The format of the probe, as the two adjacent string literals of the source.\<close>

definition stat_format :: "directive list" where
  "stat_format = parse_format
     (''%*d (%*[^)]) %c %*d %*d %*d %*d %*d %*u %*u %*u '' @
      ''%*u %*u %*u %*u %*d %*d %*d %*d %*d %*d %llu'')"

text \<open>
  The state of the scan: the characters not yet read; whether the last character read
  was \<open>EOF\<close>; \<open>inchar_errno\<close>, the \<open>errno\<close> noted when the end of the input was met; and
  \<open>errno\<close> itself. Once the end has been met, every further attempt to read puts the
  noted value back into \<open>errno\<close>.
\<close>

record scanner =
  unread :: string
  at_eof :: bool
  inchar_errno :: nat
  errno_now :: nat

definition reach_end :: "scanner \<Rightarrow> scanner" where
  "reach_end st = st\<lparr>unread := [], at_eof := True, inchar_errno := errno_now st\<rparr>"

definition inchar :: "scanner \<Rightarrow> char option \<times> scanner" where
  "inchar st =
     (if at_eof st then (None, st\<lparr>errno_now := inchar_errno st\<rparr>)
      else case unread st of
             [] \<Rightarrow> (None, reach_end st)
           | x # r \<Rightarrow> (Some x, st\<lparr>unread := r\<rparr>))"

definition ungetc :: "char option \<Rightarrow> scanner \<Rightarrow> scanner" where
  "ungetc c st = (case c of None \<Rightarrow> st | Some x \<Rightarrow> st\<lparr>unread := x # unread st\<rparr>)"

text \<open>Calls of \<open>inchar\<close> until it yields a character that is not white space, or \<open>EOF\<close>.\<close>

definition next_nonspace :: "scanner \<Rightarrow> char option \<times> scanner" where
  "next_nonspace st =
     (if at_eof st then inchar st
      else case dropWhile isspace (unread st) of
             [] \<Rightarrow> (None, reach_end st)
           | x # r \<Rightarrow> (Some x, st\<lparr>unread := r\<rparr>))"

text \<open>
  Eating white space before a conversion: \<open>errno\<close> is saved and set to 0, characters
  are read while they are white space (none if the end was met before), \<open>errno\<close> is
  restored and the last character is put back.
\<close>

definition eat_whitespace :: "scanner \<Rightarrow> scanner" where
  "eat_whitespace st =
     (let save_errno = errno_now st;
          st0 = st\<lparr>errno_now := 0\<rparr>;
          (c, st1) = (if at_eof st0 then (None, st0) else next_nonspace st0)
      in ungetc c (st1\<lparr>errno_now := save_errno\<rparr>))"

text \<open>
  A loop that has read characters one by one and stopped before \<open>r\<close>: with \<open>r\<close> empty
  it has met the end of the input, otherwise the character it stopped at is put back.
\<close>

definition stopped_before :: "string \<Rightarrow> scanner \<Rightarrow> scanner" where
  "stopped_before r st = (if r = [] then reach_end st else st\<lparr>unread := r\<rparr>)"

text \<open>
  An integer conversion, after the white space: no character is an input failure; an
  optional sign and then the longest run of decimal digits are read; no digit is a
  matching failure.
\<close>

datatype 'a conversion =
    Input_failure scanner
  | Matching_failure scanner
  | Matched 'a scanner

definition scan_integer :: "scanner \<Rightarrow> (bool \<times> nat) conversion" where
  "scan_integer st =
     (case inchar st of
        (None, st1) \<Rightarrow> Input_failure st1
      | (Some c, st1) \<Rightarrow>
          (let neg = (c = CHR ''-'');
               s2 = (if c = CHR ''-'' \<or> c = CHR ''+'' then unread st1 else c # unread st1);
               ds = takeWhile isdigit s2
           in if ds = [] then Matching_failure st1
              else Matched (neg, decimal ds) (stopped_before (dropWhile isdigit s2) st1)))"

text \<open>
  The digits are converted by \<open>strtol\<close> for \<open>%d\<close>, \<open>strtoul\<close> for \<open>%u\<close> and
  \<open>strtoull\<close> for \<open>%llu\<close>, also when the assignment is suppressed. Out of the range of
  the type they set \<open>errno\<close> to \<open>ERANGE\<close>; \<open>strtoull\<close> then yields \<open>ULLONG_MAX\<close>, and
  after a minus sign the negation in the unsigned type.
\<close>

definition strtol_overflows :: "bool \<times> nat \<Rightarrow> bool" where
  "strtol_overflows v = (case v of (neg, n) \<Rightarrow> if neg then n > 2 ^ 63 else n \<ge> 2 ^ 63)"

definition strtoul_overflows :: "bool \<times> nat \<Rightarrow> bool" where
  "strtoul_overflows v = (case v of (neg, n) \<Rightarrow> n \<ge> 2 ^ 64)"

definition strtoull :: "bool \<times> nat \<Rightarrow> 64 word" where
  "strtoull v =
     (case v of (neg, n) \<Rightarrow>
        if n \<ge> 2 ^ 64 then - 1 else if neg then - of_nat n else of_nat n)"

definition set_ERANGE :: "bool \<Rightarrow> scanner \<Rightarrow> scanner" where
  "set_ERANGE overflow st = (if overflow then st\<lparr>errno_now := ERANGE\<rparr> else st)"

text \<open>
  The return value when scanning stops early: \<open>EOF\<close> (\<open>- 1\<close>) after an input failure
  with nothing assigned yet, else the number of items assigned so far.
\<close>

definition scanf_stops :: "bool \<Rightarrow> nat \<Rightarrow> int" where
  "scanf_stops input_failure n = (if input_failure \<and> n = 0 then - 1 else int n)"

text \<open>
  The loop over the directives, with the two pointer arguments of the probe: \<open>args\<close>
  holds \<open>state\<close> (the target of \<open>%c\<close>) and \<open>start_time\<close> (the target of \<open>%llu\<close>).
  \<open>skip_space\<close> says that white space of the format is pending and \<open>n\<close> counts the
  assignments. The result is the return value, the arguments and \<open>errno\<close>.
\<close>

fun vfscanf ::
  "directive list \<Rightarrow> scanner \<Rightarrow> bool \<Rightarrow> nat \<Rightarrow> char \<times> 64 word
     \<Rightarrow> int \<times> (char \<times> 64 word) \<times> nat" where
  "vfscanf [] st skip_space n args = (int n, args, errno_now st)"
| "vfscanf (White_space # ds) st skip_space n args = vfscanf ds st True n args"
| "vfscanf (Ordinary fc # ds) st skip_space n args =
     (case inchar st of
        (None, st1) \<Rightarrow> (scanf_stops True n, args, errno_now st1)
      | (Some c, st1) \<Rightarrow>
          (case (if skip_space \<and> isspace c then next_nonspace st1 else (Some c, st1)) of
             (None, st2) \<Rightarrow> (scanf_stops True n, args, errno_now st2)
           | (Some x, st2) \<Rightarrow>
               if x = fc then vfscanf ds st2 False n args
               else (scanf_stops False n, args, errno_now st2)))"
| "vfscanf (Skip_d # ds) st skip_space n args =
     (case scan_integer (eat_whitespace st) of
        Input_failure st1 \<Rightarrow> (scanf_stops True n, args, errno_now st1)
      | Matching_failure st1 \<Rightarrow> (scanf_stops False n, args, errno_now st1)
      | Matched v st1 \<Rightarrow> vfscanf ds (set_ERANGE (strtol_overflows v) st1) False n args)"
| "vfscanf (Skip_u # ds) st skip_space n args =
     (case scan_integer (eat_whitespace st) of
        Input_failure st1 \<Rightarrow> (scanf_stops True n, args, errno_now st1)
      | Matching_failure st1 \<Rightarrow> (scanf_stops False n, args, errno_now st1)
      | Matched v st1 \<Rightarrow> vfscanf ds (set_ERANGE (strtoul_overflows v) st1) False n args)"
| "vfscanf (Skip_not c # ds) st skip_space n args =
     (case inchar (if skip_space then eat_whitespace st else st) of
        (None, st1) \<Rightarrow> (scanf_stops True n, args, errno_now st1)
      | (Some x, st1) \<Rightarrow>
          if x = c then (scanf_stops False n, args, errno_now st1)
          else vfscanf ds (stopped_before (dropWhile (\<lambda>y. y \<noteq> c) (unread st1)) st1)
                 False n args)"
| "vfscanf (Conv_c # ds) st skip_space n args =
     (case inchar (if skip_space then eat_whitespace st else st) of
        (None, st1) \<Rightarrow> (scanf_stops True n, args, errno_now st1)
      | (Some x, st1) \<Rightarrow> vfscanf ds st1 False (Suc n) (x, snd args))"
| "vfscanf (Conv_llu # ds) st skip_space n args =
     (case scan_integer (eat_whitespace st) of
        Input_failure st1 \<Rightarrow> (scanf_stops True n, args, errno_now st1)
      | Matching_failure st1 \<Rightarrow> (scanf_stops False n, args, errno_now st1)
      | Matched v st1 \<Rightarrow>
          vfscanf ds (set_ERANGE (strtoul_overflows v) st1) False (Suc n)
            (fst args, strtoull v))"

text \<open>\<open>sscanf(s, format, &state, &start_time)\<close> with \<open>errno\<close> as it is at the call.\<close>

definition scanning :: "string \<Rightarrow> nat \<Rightarrow> scanner" where
  "scanning s errno = \<lparr>unread = s, at_eof = False, inchar_errno = 0, errno_now = errno\<rparr>"

definition sscanf ::
  "string \<Rightarrow> directive list \<Rightarrow> nat \<Rightarrow> char \<times> 64 word \<Rightarrow> int \<times> (char \<times> 64 word) \<times> nat" where
  "sscanf s format errno args = vfscanf format (scanning s errno) False 0 args"

subsection \<open>start_time_of\<close>

text \<open>
  The callback that \<open>start_time_of\<close> passes for the file's contents. \<open>state\<close> starts as
  NUL and \<open>start_time\<close> as 0. \<open>hz\<close> is the \<open>unsigned long\<close> made from the result of
  \<open>sysconf\<close>, which leaves \<open>errno\<close> alone for a name it knows; dividing by a zero
  \<open>hz\<close> traps. The sum with \<open>boot_time\<close> is taken in 64 bits.
\<close>

definition start_time_from_stat ::
  "linux \<Rightarrow> nat \<Rightarrow> string \<Rightarrow> nat \<times> (error + timeval option)" where
  "start_time_from_stat lx errno buffer =
     (case sscanf (c_str buffer) stat_format errno (CHR 0x00, 0) of
        (ret, (state, ticks), errno') \<Rightarrow>
          (errno',
           if ret \<noteq> 2 then Inr None
           else if state = CHR ''Z'' \<or> state = CHR ''X'' \<or> state = CHR ''x'' then Inr None
           else if sysconf_SC_CLK_TCK lx = - 1 then Inr None
           else
             (let hz = (word_of_int (sysconf_SC_CLK_TCK lx) :: 64 word) in
              if hz = 0 then Inl division_by_zero
              else Inr (Some
                \<lparr>tv_sec = sint (ticks div hz + word_of_int (boot_time lx)),
                 tv_usec = sint ((ticks mod hz) * (1000000 div hz))\<rparr>))))"

text \<open>
  \<open>start_time_of(pid)\<close> in the \<open>__linux__\<close> branch: \<open>errno = 0\<close>, the path
  \<open>/proc/%u/stat\<close> of \<open>unsigned(pid)\<close>, and \<open>with_file_contents\<close> with the callback
  above and an error callback that returns \<open>std::nullopt\<close>. It yields the final \<open>errno\<close>
  with the result.
\<close>

definition start_time_of_linux :: "linux \<Rightarrow> pid_t \<Rightarrow> error + nat \<times> timeval option" where
  "start_time_of_linux lx pid =
     (case with_file_contents lx 0 (''/proc/'' @ dec_nat (unat pid) @ ''/stat'')
             (start_time_from_stat lx) (Inr None) of
        (errno, r) \<Rightarrow> (case r of Inl e \<Rightarrow> Inl e | Inr tv \<Rightarrow> Inr (errno, tv)))"

section \<open>ProcessId.cpp: packing and unpacking\<close>

definition epoch :: "32 word" where
  "epoch = 1704067200"

definition shift :: "'v::len itself \<Rightarrow> nat" where
  "shift T = LENGTH('v) div 2"

text \<open>
  \<open>value_from<ValueT>(pid, tv)\<close>. \<open>errno\<close> is the value of the global at the call and
  \<open>strerr\<close> the C library's \<open>strerror\<close>. The third branch of the
  \<open>if constexpr\<close> returns a string literal, which converts to no integer type: the template
  has no instance at another width.
\<close>

definition value_from ::
  "(nat \<Rightarrow> string) \<Rightarrow> nat \<Rightarrow> pid_t \<Rightarrow> timeval option \<Rightarrow> error + 'v::len word" where
  "value_from strerr errno pid tv =
     (case tv of
        None \<Rightarrow>
          Inl (runtime_error
                 (''can't get process start time: pid='' @ dec_int (sint pid) @
                  (if errno \<noteq> 0 then '': '' @ strerr errno else [])))
      | Some t \<Rightarrow>
          if LENGTH('v) = 64 then
            Inr (push_bit (shift TYPE('v)) (scast pid) OR
                 ucast (word_of_int (tv_sec t - uint epoch) :: 32 word))
          else if LENGTH('v) = 128 then
            Inr (push_bit (shift TYPE('v)) (scast pid) OR
                 ucast (1000000 * word_of_int (tv_sec t) + word_of_int (tv_usec t) :: 64 word))
          else Inl (ill_formed ''Unknown ticks type representation''))"

text \<open>
  What the process sees of its platform: whether assertions are compiled out, its own pid,
  the start-time probe \<open>start_time_of\<close> that the platform's \<open>#if\<close> branch provides, and
  \<open>strerror\<close>. The probe sets \<open>errno\<close> to 0 and then asks the system, so it yields the
  final \<open>errno\<close> with its optional result; \<open>Inl\<close> is a probe that kills the process.
\<close>

record process =
  ndebug :: bool
  getpid :: pid_t
  start_time_of :: "pid_t \<Rightarrow> error + nat \<times> timeval option"
  strerror :: "nat \<Rightarrow> string"

text \<open>\<open>ProcessId::maybe(pid)\<close>.\<close>

definition maybe :: "'z process_scheme \<Rightarrow> pid_t \<Rightarrow> error + 'v::len word ProcessId option" where
  "maybe env pid =
     (case start_time_of env pid of
        Inl e \<Rightarrow> Inl e
      | Inr (errno, start_time) \<Rightarrow>
          (case start_time of
             Some t \<Rightarrow>
               (case value_from (strerror env) errno pid (Some t) of
                  Inl e \<Rightarrow> Inl e
                | Inr v \<Rightarrow> Inr (Some (ProcessId v)))
           | None \<Rightarrow> Inr None))"

text \<open>\<open>ProcessId::ProcessId(pid_t pid)\<close>, the constructor from a bare pid.\<close>

definition ProcessId_pid :: "'z process_scheme \<Rightarrow> pid_t \<Rightarrow> error + 'v::len word ProcessId" where
  "ProcessId_pid env pid =
     (case start_time_of env pid of
        Inl e \<Rightarrow> Inl e
      | Inr (errno, start_time) \<Rightarrow>
          (case value_from (strerror env) errno pid start_time of
             Inl e \<Rightarrow> Inl e
           | Inr v \<Rightarrow> Inr (ProcessId v)))"

text \<open>
  \<open>ProcessId::ProcessId(pid_t pid, timeval const & start_time) noexcept\<close>. \<open>errno\<close> is
  whatever it is at the call.
\<close>

definition ProcessId_pid_start_time ::
  "(nat \<Rightarrow> string) \<Rightarrow> nat \<Rightarrow> pid_t \<Rightarrow> timeval \<Rightarrow> error + 'v::len word ProcessId" where
  "ProcessId_pid_start_time strerr errno pid start_time =
     (case value_from strerr errno pid (Some start_time) of
        Inl e \<Rightarrow> Inl e
      | Inr v \<Rightarrow> Inr (ProcessId v))"

definition pid :: "'v::len word ProcessId \<Rightarrow> pid_t" where
  "pid x = ucast (drop_bit (shift TYPE('v)) (value_bits x))"

definition start_time :: "'v::len word ProcessId \<Rightarrow> timeval" where
  "start_time x =
     (if LENGTH('v) = 64 then
        (let ticks = (ucast (value_bits x) :: 32 word) in
         \<lparr>tv_sec = uint (epoch + ticks), tv_usec = 0\<rparr>)
      else
        (let ticks = (ucast (value_bits x) :: 64 word) in
         \<lparr>tv_sec = uint (ticks div 1000000), tv_usec = uint (ticks mod 1000000)\<rparr>))"

text \<open>\<open>ProcessId::null()\<close>: the value-initialized identifier, all bits zero.\<close>

definition null :: "'v::len word ProcessId" where
  "null = ProcessId 0"

text \<open>
  \<open>ProcessId::current()\<close>: \<open>ProcessId{::getpid()}\<close>, kept in a function-local static and
  computed again in the child after a fork. The probe's answer for the calling process
  does not change while it runs, so the cached value is the computed one.
\<close>

definition current :: "'z process_scheme \<Rightarrow> error + 'v::len word ProcessId" where
  "current env = ProcessId_pid env (getpid env)"

section \<open>ProcessIdLock.cpp: the robust process mutex\<close>

text \<open>
  The lock is its one field \<open>pid_\<close>, an \<open>Atomic<ProcessId>\<close>. \<open>exchange\<close> returns the
  success flag and the updated \<open>expected\<close>.
\<close>

definition exchange ::
  "'z process_scheme \<Rightarrow> 'a ProcessId \<Rightarrow> 'a ProcessId \<Rightarrow> 'a ProcessId
     \<Rightarrow> (error + bool \<times> 'a ProcessId) \<times> 'a ProcessId" where
  "exchange env expected desired pid_cell =
     compare_exchange_strong (ndebug env) expected desired memory_order_seq_cst pid_cell"

text \<open>
  \<open>try_lock_impl(me)\<close> touches the shared cell up to three times. Other processes run
  between these atomic steps: \<open>others1\<close> is what they do to the cell between the first
  exchange and the reclaiming one (while the holder is probed), \<open>others2\<close> between the
  reclaiming exchange and the last. A caller that runs alone has \<open>id\<close> for both.
\<close>

definition try_lock_impl ::
  "'z process_scheme \<Rightarrow> ('v::len word ProcessId \<Rightarrow> 'v word ProcessId)
     \<Rightarrow> ('v word ProcessId \<Rightarrow> 'v word ProcessId)
     \<Rightarrow> 'v word ProcessId \<Rightarrow> 'v word ProcessId \<Rightarrow> (error + bool) \<times> 'v word ProcessId" where
  "try_lock_impl env others1 others2 me pid_cell =
     (case exchange env null me pid_cell of
        (Inl e, c1) \<Rightarrow> (Inl e, c1)
      | (Inr (got, expected), c1) \<Rightarrow>
          if got then (Inr True, c1)
          else if expected \<noteq> me then
            (case maybe env (pid expected) of
               Inl e \<Rightarrow> (Inl e, c1)
             | Inr p \<Rightarrow>
                 if p = None \<or> Some expected \<noteq> p then
                   (case exchange env expected null (others1 c1) of
                      (Inl e, c2) \<Rightarrow> (Inl e, c2)
                    | (Inr r, c2) \<Rightarrow>
                        (case exchange env null me (others2 c2) of
                           (Inl e, c3) \<Rightarrow> (Inl e, c3)
                         | (Inr (got2, expected2), c3) \<Rightarrow>
                             if got2 then (Inr True, c3) else (Inr False, c3)))
                 else (Inr False, c1))
          else (Inr False, c1))"

definition try_lock ::
  "'z process_scheme \<Rightarrow> ('v::len word ProcessId \<Rightarrow> 'v word ProcessId)
     \<Rightarrow> ('v word ProcessId \<Rightarrow> 'v word ProcessId)
     \<Rightarrow> 'v word ProcessId \<Rightarrow> (error + bool) \<times> 'v word ProcessId" where
  "try_lock env others1 others2 pid_cell =
     (case current env of
        Inl e \<Rightarrow> (Inl e, pid_cell)
      | Inr me \<Rightarrow> try_lock_impl env others1 others2 me pid_cell)"

definition unlock ::
  "'z process_scheme \<Rightarrow> 'v::len word ProcessId \<Rightarrow> (error + unit) \<times> 'v word ProcessId" where
  "unlock env pid_cell =
     (case current env of
        Inl e \<Rightarrow> (Inl e, pid_cell)
      | Inr me \<Rightarrow>
          (case exchange env me null pid_cell of
             (Inl e, c) \<Rightarrow> (Inl e, c)
           | (Inr (released, expected), c) \<Rightarrow> (cassert (ndebug env) released, c)))"

section \<open>The format of a stat line\<close>

text \<open>
  A line of \<open>/proc/<pid>/stat\<close> as the kernel prints it (proc(5)): the pid, the command
  name in parentheses, the one-letter state, and numbers separated by single spaces, of
  which the 19th after the state is field 22, the start time in clock ticks. \<open>middle\<close>
  holds fields 4 to 21 and \<open>rest\<close> is what follows field 22.
\<close>

definition digits :: "string \<Rightarrow> bool" where
  "digits f = (f \<noteq> [] \<and> list_all isdigit f)"

definition number :: "string \<Rightarrow> bool" where
  "number f = (case f of [] \<Rightarrow> False | c # r \<Rightarrow> if c = CHR ''-'' then digits r else digits f)"

definition ends_number :: "string \<Rightarrow> bool" where
  "ends_number rest = (case rest of [] \<Rightarrow> True | c # r \<Rightarrow> \<not> isdigit c)"

definition stat_line ::
  "string \<Rightarrow> string \<Rightarrow> char \<Rightarrow> string list \<Rightarrow> string \<Rightarrow> string \<Rightarrow> string" where
  "stat_line pid_field comm state middle starttime rest =
     pid_field @ '' ('' @ comm @ '') '' @ [state] @
     concat (map (\<lambda>f. CHR '' '' # f) middle) @ CHR '' '' # starttime @ rest"

section \<open>Example processes\<close>

text \<open>
  A process with pid 7, started one second after the epoch of the packed encoding. Its
  probe sees itself, sees a process with pid 9 that started 100 seconds after the epoch,
  and is refused every other pid with \<open>errno\<close> 13 (\<open>EACCES\<close>).
\<close>

definition example_probe :: "pid_t \<Rightarrow> error + nat \<times> timeval option" where
  "example_probe p =
     (if p = 7 then Inr (0, Some \<lparr>tv_sec = 1704067201, tv_usec = 0\<rparr>)
      else if p = 9 then Inr (0, Some \<lparr>tv_sec = 1704067300, tv_usec = 0\<rparr>)
      else Inr (13, None))"

definition example_strerror :: "nat \<Rightarrow> string" where
  "example_strerror e =
     (if e = 13 then ''Permission denied''
      else if e = 34 then ''Numerical result out of range''
      else ''Unknown error'')"

definition example_process :: process where
  "example_process =
     \<lparr>ndebug = False, getpid = 7, start_time_of = example_probe, strerror = example_strerror\<rparr>"

text \<open>
  Identifiers of the 64-bit layout: the process itself; a holder with pid 5, which the
  probe cannot see; a holder with pid 9 and an older start time than the running process
  with that pid; and that running process.
\<close>

definition example_me :: "64 word ProcessId" where
  "example_me = ProcessId 30064771073"

definition example_unseen :: "64 word ProcessId" where
  "example_unseen = ProcessId 21474836481"

definition example_reused :: "64 word ProcessId" where
  "example_reused = ProcessId 38654705714"

definition example_alive :: "64 word ProcessId" where
  "example_alive = ProcessId 38654705764"

text \<open>Another process that takes the lock as soon as it is free.\<close>

definition example_rival :: "64 word ProcessId \<Rightarrow> 64 word ProcessId" where
  "example_rival c = (if c = null then example_alive else c)"

definition example_timeval :: timeval where
  "example_timeval = \<lparr>tv_sec = 1704067201, tv_usec = 250000\<rparr>"

text \<open>
  A Linux system with 100 clock ticks per second, booted at the epoch. Process 4242 is a
  zombie and process 4243 sleeps; process 102 sleeps too and runs a program whose file
  name is \<open>a) b\<close>; process 111 is a zombie whose field 22 does not fit 64 bits. The
  others started 123456 ticks after boot.
\<close>

definition example_middle :: "string list" where
  "example_middle =
     [''1'', ''4242'', ''4242'', ''0'', ''-1'', ''4194304'', ''91'', ''0'', ''0'', ''0'', ''0'',
      ''0'', ''0'', ''0'', ''20'', ''0'', ''1'', ''0'']"

definition example_stat :: "string \<Rightarrow> string \<Rightarrow> char \<Rightarrow> string \<Rightarrow> string" where
  "example_stat pid_field comm state starttime =
     stat_line pid_field comm state example_middle starttime
       '' 8192000 180 18446744073709551615 1 1''"

definition example_files :: "string \<Rightarrow> proc_file" where
  "example_files path =
     (if path = ''/proc/4242/stat'' then
        Contents (example_stat ''4242'' ''sleep'' CHR ''Z'' ''123456'')
      else if path = ''/proc/4243/stat'' then
        Contents (example_stat ''4243'' ''sleep'' CHR ''S'' ''123456'')
      else if path = ''/proc/102/stat'' then
        Contents (example_stat ''102'' ''a) b'' CHR ''S'' ''123456'')
      else if path = ''/proc/111/stat'' then
        Contents (example_stat ''111'' ''defunct'' CHR ''Z'' ''99999999999999999999999'')
      else Open_fails 2)"

definition example_linux :: linux where
  "example_linux =
     \<lparr>proc_files = example_files, sysconf_SC_CLK_TCK = 100, boot_time = 1704067200\<rparr>"

definition example_linux_process :: process where
  "example_linux_process =
     \<lparr>ndebug = False, getpid = 4243, start_time_of = start_time_of_linux example_linux,
      strerror = example_strerror\<rparr>"

lemmas example_defs = example_process_def example_probe_def example_strerror_def
  example_me_def example_unseen_def example_reused_def example_alive_def

section \<open>Properties of the atomic cell\<close>

lemma native_order_seq_cst:
  "native_order nd [ATOMIC_RELAXED, ATOMIC_CONSUME, ATOMIC_ACQUIRE, ATOMIC_SEQ_CST]
     memory_order_seq_cst = Inr 5"
  by (simp add: native_order_def cassert_def ATOMIC_SEQ_CST_def)

lemma compare_exchange_strong_seq_cst:
  "compare_exchange_strong nd expected desired memory_order_seq_cst cell =
     (if cell = expected then (Inr (True, expected), desired) else (Inr (False, cell), cell))"
  by (simp add: compare_exchange_strong_def compare_exchange_impl_def native_order_seq_cst
      cassert_def atomic_compare_exchange_def)

text \<open>
  C4. For every supported type, \<open>store\<close> accepts the orders relaxed, release and seq_cst:
  the assertion on the order does not fire and the value is written. The code does this
  only for a fundamental type. For any other type (a struct such as \<open>ProcessId\<close>, a
  pointer) the list of orders asserted is the one of \<open>load\<close>, so a release store fails the
  assertion in a debug build and leaves the cell as it was, while an acquire store, which
  the documented precondition excludes, passes.
\<close>

theorem store_release_asserts_unless_fundamental:
  "store False False desired memory_order_release cell = (Inl assertion_failure, cell) \<and>
   store False True desired memory_order_release cell = (Inr (), desired) \<and>
   store False False desired memory_order_acquire cell = (Inr (), desired)"
  by (simp add: store_def native_order_def cassert_def ATOMIC_RELAXED_def ATOMIC_ACQUIRE_def
      ATOMIC_CONSUME_def ATOMIC_RELEASE_def ATOMIC_SEQ_CST_def)

text \<open>For a fundamental type the three orders of the precondition are accepted.\<close>

lemma store_fundamental_accepts:
  assumes "order = memory_order_relaxed \<or> order = memory_order_release \<or>
           order = memory_order_seq_cst"
  shows "store nd True desired order cell = (Inr (), desired)"
  using assms
  by (auto simp add: store_def native_order_def cassert_def ATOMIC_RELAXED_def
      ATOMIC_RELEASE_def ATOMIC_SEQ_CST_def)

section \<open>Properties of the packed identifier\<close>

lemma high_half_64:
  "ucast (drop_bit 32 (push_bit 32 (scast (p :: 32 word) :: 64 word) OR ucast (lo :: 32 word))) = p"
  by (rule bit_word_eqI) (auto simp add: bit_simps dest: bit_imp_le_length)

lemma low_half_64:
  "ucast (push_bit 32 (scast (p :: 32 word) :: 64 word) OR ucast (lo :: 32 word)) = lo"
  by (rule bit_word_eqI) (auto simp add: bit_simps)

lemma high_half_128:
  "ucast (drop_bit 64 (push_bit 64 (scast (p :: 32 word) :: 128 word) OR ucast (lo :: 64 word)))
     = (scast p :: 64 word)"
  by (rule bit_word_eqI) (auto simp add: bit_simps dest: bit_imp_le_length)

lemma pid_half_128:
  "ucast (drop_bit 64 (push_bit 64 (scast (p :: 32 word) :: 128 word) OR ucast (lo :: 64 word))) = p"
  by (rule bit_word_eqI) (auto simp add: bit_simps dest: bit_imp_le_length)

lemma low_half_128:
  "ucast (push_bit 64 (scast (p :: 32 word) :: 128 word) OR ucast (lo :: 64 word)) = lo"
  by (rule bit_word_eqI) (auto simp add: bit_simps)

lemma value_from_64:
  "(value_from se en p (Some t) :: error + 64 word) =
     Inr (push_bit 32 (scast p) OR ucast (word_of_int (tv_sec t - 1704067200) :: 32 word))"
  by (simp add: value_from_def shift_def epoch_def)

lemma value_from_128:
  "(value_from se en p (Some t) :: error + 128 word) =
     Inr (push_bit 64 (scast p) OR
          ucast (1000000 * word_of_int (tv_sec t) + word_of_int (tv_usec t) :: 64 word))"
  by (simp add: value_from_def shift_def)

lemma pid_packed_64:
  "pid (ProcessId (push_bit 32 (scast p) OR ucast (lo :: 32 word) :: 64 word)) = p"
  unfolding pid_def shift_def ProcessId.sel
  by (rule bit_word_eqI) (auto simp add: bit_simps dest: bit_imp_le_length)

lemma pid_packed_128:
  "pid (ProcessId (push_bit 64 (scast p) OR ucast (lo :: 64 word) :: 128 word)) = p"
  unfolding pid_def shift_def ProcessId.sel
  by (rule bit_word_eqI) (auto simp add: bit_simps dest: bit_imp_le_length)

lemma start_time_packed_64:
  "start_time (ProcessId (push_bit 32 (scast (p :: 32 word)) OR ucast (lo :: 32 word) :: 64 word)) =
     \<lparr>tv_sec = uint (epoch + lo), tv_usec = 0\<rparr>"
proof -
  have "(ucast (push_bit 32 (scast p :: 64 word) OR ucast lo) :: 32 word) = lo"
    by (rule low_half_64)
  then show ?thesis
    unfolding start_time_def ProcessId.sel Let_def by simp
qed

lemma start_time_packed_128:
  "start_time (ProcessId (push_bit 64 (scast (p :: 32 word)) OR ucast (lo :: 64 word) :: 128 word)) =
     \<lparr>tv_sec = uint (lo div 1000000), tv_usec = uint (lo mod 1000000)\<rparr>"
proof -
  have "(ucast (push_bit 64 (scast p :: 128 word) OR ucast lo) :: 64 word) = lo"
    by (rule low_half_128)
  then show ?thesis
    unfolding start_time_def ProcessId.sel Let_def by simp
qed

lemma ticks_64: "(word_of_int (uint (epoch + t) - 1704067200) :: 32 word) = t"
  by (simp add: epoch_def)

lemma ticks_128:
  "(1000000 * word_of_int (uint (t div 1000000)) + word_of_int (uint (t mod 1000000)) :: 64 word) = t"
  by (simp add: mult_div_mod_eq)

lemma packed_nonzero_64:
  assumes "p \<noteq> 0"
  shows "push_bit 32 (scast (p :: 32 word) :: 64 word) OR ucast (lo :: 32 word) \<noteq> 0"
proof
  assume "push_bit 32 (scast p :: 64 word) OR ucast lo = 0"
  then have "(ucast (drop_bit 32 (push_bit 32 (scast p :: 64 word) OR ucast lo)) :: 32 word) =
             ucast (drop_bit 32 (0 :: 64 word))"
    by simp
  then have "p = 0" by (simp only: high_half_64) simp
  with assms show False by simp
qed

lemma packed_nonzero_128:
  assumes "p \<noteq> 0"
  shows "push_bit 64 (scast (p :: 32 word) :: 128 word) OR ucast (lo :: 64 word) \<noteq> 0"
proof
  assume "push_bit 64 (scast p :: 128 word) OR ucast lo = 0"
  then have "(ucast (drop_bit 64 (push_bit 64 (scast p :: 128 word) OR ucast lo)) :: 32 word) =
             ucast (drop_bit 64 (0 :: 128 word))"
    by simp
  then have "p = 0" by (simp only: pid_half_128) simp
  with assms show False by simp
qed

lemma example_packed:
  "ProcessId_pid_start_time example_strerror 0 7 example_timeval =
     Inr (ProcessId (30064771073 :: 64 word))"
  "ProcessId_pid_start_time example_strerror 0 7 example_timeval =
     Inr (ProcessId (129128912583168111312 :: 128 word))"
  by (simp_all add: ProcessId_pid_start_time_def value_from_def shift_def epoch_def
      example_timeval_def)

text \<open>
  C5. Round trip of the packed encoding, for both widths: the identifier built by the
  two-argument constructor from \<open>p\<close> and \<open>tv\<close> has pid \<open>p\<close>, and building an
  identifier again from its pid and its start time gives the same identifier. The
  constructor does not throw. This holds for every pid, the non-negative ones among them.
\<close>

theorem ProcessId_round_trip:
  "(\<exists>x :: 64 word ProcessId.
      ProcessId_pid_start_time se en p tv = Inr x \<and> pid x = p \<and>
      ProcessId_pid_start_time se' en' (pid x) (start_time x) = Inr x) \<and>
   (\<exists>x :: 128 word ProcessId.
      ProcessId_pid_start_time se en p tv = Inr x \<and> pid x = p \<and>
      ProcessId_pid_start_time se' en' (pid x) (start_time x) = Inr x)"
proof (intro conjI)
  let ?lo = "word_of_int (tv_sec tv - 1704067200) :: 32 word"
  let ?x = "ProcessId (push_bit 32 (scast p) OR ucast ?lo :: 64 word)"
  have "ProcessId_pid_start_time se en p tv = Inr ?x"
    by (simp only: ProcessId_pid_start_time_def value_from_64 sum.case)
  moreover have "pid ?x = p"
    by (rule pid_packed_64)
  moreover have "ProcessId_pid_start_time se' en' p (start_time ?x) = Inr ?x"
    by (simp only: ProcessId_pid_start_time_def value_from_64 start_time_packed_64 sum.case
        timeval.simps ticks_64)
  ultimately show "\<exists>x :: 64 word ProcessId.
      ProcessId_pid_start_time se en p tv = Inr x \<and> pid x = p \<and>
      ProcessId_pid_start_time se' en' (pid x) (start_time x) = Inr x"
    by (intro exI [of _ ?x]) (simp only: simp_thms)
next
  let ?lo = "1000000 * word_of_int (tv_sec tv) + word_of_int (tv_usec tv) :: 64 word"
  let ?x = "ProcessId (push_bit 64 (scast p) OR ucast ?lo :: 128 word)"
  have "ProcessId_pid_start_time se en p tv = Inr ?x"
    by (simp only: ProcessId_pid_start_time_def value_from_128 sum.case)
  moreover have "pid ?x = p"
    by (rule pid_packed_128)
  moreover have "ProcessId_pid_start_time se' en' p (start_time ?x) = Inr ?x"
    by (simp only: ProcessId_pid_start_time_def value_from_128 start_time_packed_128 sum.case
        timeval.simps ticks_128)
  ultimately show "\<exists>x :: 128 word ProcessId.
      ProcessId_pid_start_time se en p tv = Inr x \<and> pid x = p \<and>
      ProcessId_pid_start_time se' en' (pid x) (start_time x) = Inr x"
    by (intro exI [of _ ?x]) (simp only: simp_thms)
qed

theorem ProcessId_round_trip_witness:
  "ProcessId_pid_start_time example_strerror 0 7 example_timeval =
     Inr (ProcessId (129128912583168111312 :: 128 word)) \<and>
   pid (ProcessId (129128912583168111312 :: 128 word)) = 7 \<and>
   start_time (ProcessId (129128912583168111312 :: 128 word)) = example_timeval \<and>
   ProcessId_pid_start_time example_strerror 0
     (pid (ProcessId (129128912583168111312 :: 128 word)))
     (start_time (ProcessId (129128912583168111312 :: 128 word))) =
     Inr (ProcessId (129128912583168111312 :: 128 word))"
proof -
  have 1: "pid (ProcessId (129128912583168111312 :: 128 word)) = 7"
    by (simp add: pid_def shift_def)
  have 2: "start_time (ProcessId (129128912583168111312 :: 128 word)) = example_timeval"
    by (simp add: start_time_def example_timeval_def)
  show ?thesis
    using ProcessId_round_trip [of example_strerror 0 7 example_timeval example_strerror 0]
    by (simp add: example_packed 1 2)
qed

text \<open>
  C6. The packed value of \<open>ProcessId(pid, start_time)\<close>, with W half the width of the
  value. W = 32: the high half is the pid, the low half is \<open>tv_sec\<close> minus the epoch
  1704067200 (2024-01-01 00:00:00 UTC) reduced to 32 bits, the microseconds are not
  stored, and \<open>start_time()\<close> gives back the epoch plus the low half with zero
  microseconds. W = 64: the high half is the pid sign-extended to 64 bits and the low
  half is \<open>tv_sec * 1000000 + tv_usec\<close> in 64-bit arithmetic, which is that number itself
  whenever it lies in the range of 64 bits.
\<close>

theorem ProcessId_packed_layout:
  "(\<exists>v :: 64 word.
      ProcessId_pid_start_time se en p tv = Inr (ProcessId v) \<and>
      shift TYPE(64) = 32 \<and>
      (ucast (drop_bit 32 v) :: 32 word) = p \<and>
      (ucast v :: 32 word) = word_of_int (tv_sec tv - 1704067200) \<and>
      start_time (ProcessId v) = \<lparr>tv_sec = uint (epoch + ucast v), tv_usec = 0\<rparr>) \<and>
   (\<exists>v :: 128 word.
      ProcessId_pid_start_time se en p tv = Inr (ProcessId v) \<and>
      shift TYPE(128) = 64 \<and>
      (ucast (drop_bit 64 v) :: 64 word) = scast p \<and>
      (ucast v :: 64 word) = word_of_int (tv_sec tv * 1000000 + tv_usec tv) \<and>
      (0 \<le> tv_sec tv * 1000000 + tv_usec tv \<and> tv_sec tv * 1000000 + tv_usec tv < 2 ^ 64 \<longrightarrow>
         uint (ucast v :: 64 word) = tv_sec tv * 1000000 + tv_usec tv))"
proof (intro conjI)
  let ?lo = "word_of_int (tv_sec tv - 1704067200) :: 32 word"
  let ?v = "push_bit 32 (scast p) OR ucast ?lo :: 64 word"
  have "ProcessId_pid_start_time se en p tv = Inr (ProcessId ?v)"
    by (simp only: ProcessId_pid_start_time_def value_from_64 sum.case)
  moreover have "shift TYPE(64) = 32" by (simp add: shift_def)
  moreover have "(ucast (drop_bit 32 ?v) :: 32 word) = p" by (rule high_half_64)
  moreover have lo: "(ucast ?v :: 32 word) = ?lo" by (rule low_half_64)
  moreover have "start_time (ProcessId ?v) = \<lparr>tv_sec = uint (epoch + ucast ?v), tv_usec = 0\<rparr>"
    by (simp only: start_time_packed_64 lo)
  ultimately show "\<exists>v :: 64 word.
      ProcessId_pid_start_time se en p tv = Inr (ProcessId v) \<and>
      shift TYPE(64) = 32 \<and>
      (ucast (drop_bit 32 v) :: 32 word) = p \<and>
      (ucast v :: 32 word) = word_of_int (tv_sec tv - 1704067200) \<and>
      start_time (ProcessId v) = \<lparr>tv_sec = uint (epoch + ucast v), tv_usec = 0\<rparr>"
    by (intro exI [of _ ?v]) (simp only: simp_thms)
next
  let ?t = "tv_sec tv * 1000000 + tv_usec tv"
  let ?lo = "1000000 * word_of_int (tv_sec tv) + word_of_int (tv_usec tv) :: 64 word"
  let ?v = "push_bit 64 (scast p) OR ucast ?lo :: 128 word"
  have "ProcessId_pid_start_time se en p tv = Inr (ProcessId ?v)"
    by (simp only: ProcessId_pid_start_time_def value_from_128 sum.case)
  moreover have "shift TYPE(128) = 64" by (simp add: shift_def)
  moreover have "(ucast (drop_bit 64 ?v) :: 64 word) = scast p" by (rule high_half_128)
  moreover have lo: "(ucast ?v :: 64 word) = word_of_int ?t"
  proof -
    have "(ucast ?v :: 64 word) = ?lo" by (rule low_half_128)
    also have "?lo = word_of_int ?t" by (simp add: mult.commute)
    finally show ?thesis .
  qed
  moreover have "0 \<le> ?t \<and> ?t < 2 ^ 64 \<longrightarrow> uint (ucast ?v :: 64 word) = ?t"
  proof
    assume r: "0 \<le> ?t \<and> ?t < 2 ^ 64"
    have "uint (word_of_int ?t :: 64 word) = ?t mod 2 ^ 64"
      by (simp only: uint_word_of_int len_num1 len_bit0 mult_1_right) simp
    with r have "uint (word_of_int ?t :: 64 word) = ?t" by simp
    with lo show "uint (ucast ?v :: 64 word) = ?t" by (simp only:)
  qed
  ultimately show "\<exists>v :: 128 word.
      ProcessId_pid_start_time se en p tv = Inr (ProcessId v) \<and>
      shift TYPE(128) = 64 \<and>
      (ucast (drop_bit 64 v) :: 64 word) = scast p \<and>
      (ucast v :: 64 word) = word_of_int ?t \<and>
      (0 \<le> ?t \<and> ?t < 2 ^ 64 \<longrightarrow> uint (ucast v :: 64 word) = ?t)"
    by (intro exI [of _ ?v]) (simp only: simp_thms)
qed

theorem ProcessId_packed_layout_witness:
  "ProcessId_pid_start_time example_strerror 0 7 example_timeval =
     Inr (ProcessId (129128912583168111312 :: 128 word)) \<and>
   (0 :: int) \<le> 1704067201 * 1000000 + 250000 \<and>
   (1704067201 * 1000000 + 250000 :: int) < 2 ^ 64 \<and>
   uint (ucast (129128912583168111312 :: 128 word) :: 64 word) = 1704067201 * 1000000 + 250000 \<and>
   ProcessId_pid_start_time example_strerror 0 7 example_timeval =
     Inr (ProcessId (30064771073 :: 64 word)) \<and>
   (ucast (30064771073 :: 64 word) :: 32 word) = word_of_int (1704067201 - 1704067200)"
  using ProcessId_packed_layout [of example_strerror 0 7 example_timeval]
  by (simp add: example_packed)

text \<open>
  C8. No identifier of a process collides with the null identifier: for every pid other
  than 0 and every start time, \<open>ProcessId(pid, start_time)\<close> differs from
  \<open>ProcessId::null()\<close>, the identifier with all bits zero, at both widths.
\<close>

theorem ProcessId_never_null:
  assumes "p \<noteq> 0"
  shows "(\<exists>x :: 64 word ProcessId. ProcessId_pid_start_time se en p tv = Inr x \<and> x \<noteq> null) \<and>
         (\<exists>x :: 128 word ProcessId. ProcessId_pid_start_time se en p tv = Inr x \<and> x \<noteq> null)"
  using assms
  by (simp add: ProcessId_pid_start_time_def value_from_64 value_from_128 null_def
      packed_nonzero_64 packed_nonzero_128)

theorem ProcessId_never_null_witness:
  "(7 :: pid_t) \<noteq> 0 \<and>
   ProcessId_pid_start_time example_strerror 0 7 example_timeval =
     Inr (ProcessId (30064771073 :: 64 word)) \<and>
   ProcessId (30064771073 :: 64 word) \<noteq> null"
  using ProcessId_never_null [of 7 example_strerror 0 example_timeval]
  by (simp add: example_packed)

text \<open>
  C7. \<open>maybe\<close> and the constructor from a bare pid surface the same outcome of the
  start-time lookup. When the lookup yields nothing, \<open>maybe(pid)\<close> returns an empty
  optional and does not throw, and \<open>ProcessId(pid)\<close> throws a \<open>runtime_error\<close> whose
  message names the pid in decimal and, when \<open>errno\<close> is set, ends with the text of
  \<open>strerror\<close>. When the lookup yields a start time, \<open>maybe(pid)\<close> holds an identifier and
  \<open>ProcessId(pid)\<close> constructs the same one.
\<close>

theorem maybe_and_constructor_agree:
  fixes env :: "'z process_scheme"
  assumes "LENGTH('v::len) = 64 \<or> LENGTH('v) = 128"
  shows "(start_time_of env p = Inr (errno, None) \<longrightarrow>
            maybe env p = Inr (None :: 'v word ProcessId option) \<and>
            ProcessId_pid env p =
              (Inl (runtime_error
                 (''can't get process start time: pid='' @ dec_int (sint p) @
                  (if errno \<noteq> 0 then '': '' @ strerror env errno else [])))
               :: error + 'v word ProcessId)) \<and>
         (start_time_of env p = Inr (errno, Some tv) \<longrightarrow>
            (\<exists>x :: 'v word ProcessId. maybe env p = Inr (Some x) \<and> ProcessId_pid env p = Inr x))"
  using assms by (auto simp add: maybe_def ProcessId_pid_def value_from_def)

lemma example_lookups:
  "start_time_of example_process 5 = Inr (13, None)"
  "start_time_of example_process 7 = Inr (0, Some \<lparr>tv_sec = 1704067201, tv_usec = 0\<rparr>)"
  by (simp_all add: example_defs)

lemma current_example: "current example_process = Inr example_me"
  by (simp add: current_def ProcessId_pid_def example_defs value_from_def shift_def epoch_def)

theorem maybe_and_constructor_agree_witness:
  "(LENGTH(64) = 64 \<or> LENGTH(64) = 128) \<and>
   start_time_of example_process 5 = Inr (13, None) \<and>
   maybe example_process 5 = Inr (None :: 64 word ProcessId option) \<and>
   ProcessId_pid example_process 5 =
     (Inl (runtime_error ''can't get process start time: pid=5: Permission denied'')
      :: error + 64 word ProcessId) \<and>
   start_time_of example_process 7 = Inr (0, Some \<lparr>tv_sec = 1704067201, tv_usec = 0\<rparr>) \<and>
   maybe example_process 7 = Inr (Some example_me) \<and>
   ProcessId_pid example_process 7 = Inr example_me"
proof -
  have w: "LENGTH(64) = 64 \<or> LENGTH(64) = 128" by simp
  have m: "dec_int 5 = ''5''"
    by (simp add: dec_int_def dec_nat.simps)
  have s: "strerror example_process 13 = ''Permission denied''"
    by (simp add: example_defs)
  have c: "ProcessId_pid example_process 7 = Inr example_me"
    using current_example by (simp add: current_def example_process_def)
  show ?thesis
    using maybe_and_constructor_agree [where 'v = 64 and env = example_process and p = 5
        and errno = 13, OF w]
      maybe_and_constructor_agree [where 'v = 64 and env = example_process and p = 7
        and errno = 0 and tv = "\<lparr>tv_sec = 1704067201, tv_usec = 0\<rparr>", OF w]
    by (simp add: example_lookups m s c)
qed

section \<open>Properties of the lock\<close>

lemma exchange_eq:
  "exchange env expected desired cell =
     (if cell = expected then (Inr (True, expected), desired) else (Inr (False, cell), cell))"
  by (simp add: exchange_def compare_exchange_strong_seq_cst)

lemma try_lock_impl_eq:
  "try_lock_impl env o1 o2 me cell =
    (if cell = null then (Inr True, me)
     else if cell \<noteq> me then
       (case maybe env (pid cell) of
          Inl e \<Rightarrow> (Inl e, cell)
        | Inr p \<Rightarrow>
            if p = None \<or> Some cell \<noteq> p then
              (let c2 = (if o1 cell = cell then null else o1 cell) in
               if o2 c2 = null then (Inr True, me) else (Inr False, o2 c2))
            else (Inr False, cell))
     else (Inr False, cell))"
  by (simp add: try_lock_impl_def exchange_eq Let_def split: sum.splits)

lemma pid_examples: "pid example_unseen = 5" "pid example_reused = 9" "pid example_alive = 9"
  by (simp_all add: pid_def shift_def example_defs)

lemma maybe_examples:
  "maybe example_process 5 = Inr (None :: 64 word ProcessId option)"
  "maybe example_process 9 = Inr (Some example_alive)"
  by (simp_all add: maybe_def example_defs value_from_def shift_def epoch_def)

lemma example_distinct:
  "example_me \<noteq> null" "example_unseen \<noteq> null" "example_unseen \<noteq> example_me"
  "example_reused \<noteq> example_me" "example_alive \<noteq> example_me" "example_alive \<noteq> null"
  "example_reused \<noteq> null" "example_alive \<noteq> example_reused"
  by (simp_all add: example_defs null_def)

text \<open>
  The claim C1 says that a holder whose liveness probe fails is treated as alive, so that
  \<open>try_lock\<close> returns false and the cell keeps the holder's identifier. The code takes
  the lock: the probe of pid 5 is refused, and the caller run alone ends as the owner.
\<close>

theorem try_lock_takes_lock_of_unseen_holder:
  "start_time_of example_process (pid example_unseen) = Inr (13, None) \<and>
   example_unseen \<noteq> example_me \<and> example_unseen \<noteq> null \<and>
   try_lock example_process id id example_unseen = (Inr True, example_me)"
  by (simp add: try_lock_def current_example try_lock_impl_eq pid_examples maybe_examples
      example_lookups example_distinct)

text \<open>
  C1, as the code has it. If the start-time lookup for the recorded holder yields nothing
  (for example because permission is denied), the holder is treated as dead and the lock
  is reclaimed: for a holder other than the caller, \<open>try_lock\<close> run without interference
  from other processes returns true and the cell holds the caller's identifier.
\<close>

theorem try_lock_reclaims_when_probe_fails:
  assumes "current env = Inr me" and "cell \<noteq> null" and "cell \<noteq> me"
    and "start_time_of env (pid cell) = Inr (errno, None)"
  shows "try_lock env id id cell = (Inr True, me)"
  using assms by (simp add: try_lock_def try_lock_impl_eq maybe_def)

theorem try_lock_reclaims_when_probe_fails_witness:
  "current example_process = Inr example_me \<and> example_unseen \<noteq> null \<and>
   example_unseen \<noteq> example_me \<and>
   start_time_of example_process (pid example_unseen) = Inr (13, None) \<and>
   try_lock example_process id id example_unseen = (Inr True, example_me)"
proof -
  have 1: "example_unseen \<noteq> null" by (rule example_distinct)
  have 2: "example_unseen \<noteq> example_me" by (rule example_distinct)
  have 3: "start_time_of example_process (pid example_unseen) = Inr (13, None)"
    by (simp add: pid_examples example_lookups)
  show ?thesis
    using try_lock_reclaims_when_probe_fails [OF current_example 1 2 3] 1 2 3 current_example
    by simp
qed

text \<open>
  C2. In \<open>ProcessIdLock::try_lock\<close>, with \<open>me\<close> the caller's \<open>current()\<close>
  identifier: when the first compare-exchange from null to \<open>me\<close> fails and the observed
  holder \<open>h\<close> is another process, the holder's pid is probed. If the probe returns no
  identifier, or one whose start time differs from that of \<open>h\<close>, the cell is
  compare-exchanged from \<open>h\<close> to null, with the result ignored, then from null to
  \<open>me\<close>, and \<open>try_lock\<close> returns the success of that second exchange, whatever other
  processes did to the cell in between. If the probe returns \<open>h\<close> itself, \<open>try_lock\<close>
  returns false and the cell is unchanged.
\<close>

theorem try_lock_orphan_detection:
  fixes me :: "'v::len word ProcessId"
  assumes "current env = Inr me"
    and "exchange env null me cell = (Inr (False, h), c1)" and "h \<noteq> me"
    and "maybe env (pid h) = Inr p"
  shows "(p = None \<or> (\<exists>q. p = Some q \<and> start_time q \<noteq> start_time h) \<longrightarrow>
            (let c2 = snd (exchange env h null (others1 c1));
                 second = exchange env null me (others2 c2)
             in try_lock env others1 others2 cell =
                  (map_sum id fst (fst second), snd second))) \<and>
         (p = Some h \<longrightarrow> try_lock env others1 others2 cell = (Inr False, cell))"
proof -
  from assms(2) have c: "cell \<noteq> null" "h = cell" "c1 = cell"
    by (auto simp add: exchange_eq split: if_splits)
  show ?thesis
    using assms(1,3,4) c
    by (auto simp add: try_lock_def try_lock_impl_eq exchange_eq Let_def)
qed

theorem try_lock_orphan_detection_witness:
  "current example_process = Inr example_me \<and>
   exchange example_process null example_me example_reused =
     (Inr (False, example_reused), example_reused) \<and>
   example_reused \<noteq> example_me \<and>
   maybe example_process (pid example_reused) = Inr (Some example_alive) \<and>
   start_time example_alive \<noteq> start_time example_reused \<and>
   try_lock example_process id id example_reused = (Inr True, example_me) \<and>
   try_lock example_process id example_rival example_reused = (Inr False, example_alive) \<and>
   exchange example_process null example_me example_alive =
     (Inr (False, example_alive), example_alive) \<and>
   maybe example_process (pid example_alive) = Inr (Some example_alive) \<and>
   try_lock example_process id id example_alive = (Inr False, example_alive)"
proof -
  have e1: "exchange example_process null example_me example_reused =
              (Inr (False, example_reused), example_reused)"
    using example_distinct by (simp add: exchange_eq)
  have n1: "example_reused \<noteq> example_me" by (rule example_distinct)
  have m1: "maybe example_process (pid example_reused) = Inr (Some example_alive)"
    by (simp add: pid_examples maybe_examples)
  have s1: "start_time example_alive \<noteq> start_time example_reused"
    by (simp add: start_time_def example_defs epoch_def)
  have e2: "exchange example_process null example_me example_alive =
              (Inr (False, example_alive), example_alive)"
    using example_distinct by (simp add: exchange_eq)
  have n2: "example_alive \<noteq> example_me" by (rule example_distinct)
  have m2: "maybe example_process (pid example_alive) = Inr (Some example_alive)"
    by (simp add: pid_examples maybe_examples)
  have r: "example_rival null = example_alive" by (simp add: example_rival_def)
  show ?thesis
    using try_lock_orphan_detection [OF current_example e1 n1 m1, of id id]
      try_lock_orphan_detection [OF current_example e1 n1 m1, of id example_rival]
      try_lock_orphan_detection [OF current_example e2 n2 m2, of id id]
      current_example e1 n1 m1 s1 e2 m2 example_distinct
    by (simp add: exchange_eq r Let_def)
qed

text \<open>
  C3. A freshly zero-initialized lock used by a single live process whose \<open>current()\<close>
  identifier is not null: \<open>try_lock\<close> returns true and stores the caller's identifier; a
  second \<open>try_lock\<close> finds the caller as holder, returns false and leaves the cell as it
  is; \<open>unlock\<close> makes the cell null again; and a further \<open>try_lock\<close> returns true.
\<close>

theorem single_process_lock_cycle:
  assumes "current env = Inr me" and "me \<noteq> null"
  shows "(let r1 = try_lock env others1 others2 null;
              r2 = try_lock env others1 others2 (snd r1);
              r3 = unlock env (snd r2);
              r4 = try_lock env others1 others2 (snd r3)
          in r1 = (Inr True, me) \<and> r2 = (Inr False, me) \<and> r3 = (Inr (), null) \<and>
             r4 = (Inr True, me))"
  using assms by (simp add: try_lock_def unlock_def try_lock_impl_eq exchange_eq cassert_def)

theorem single_process_lock_cycle_witness:
  "current example_process = Inr example_me \<and> example_me \<noteq> null \<and>
   try_lock example_process id id null = (Inr True, example_me) \<and>
   try_lock example_process id id example_me = (Inr False, example_me) \<and>
   unlock example_process example_me = (Inr (), null)"
proof -
  have 1: "example_me \<noteq> null" by (rule example_distinct)
  show ?thesis
    using single_process_lock_cycle [OF current_example 1, of id id]
      current_example 1
    by (auto simp add: Let_def)
qed

text \<open>
  C10. \<open>unlock\<close> releases the lock only through a compare-exchange from the caller's
  \<open>current()\<close> identifier to null. When the cell holds the caller's identifier it becomes
  null. When it holds anything else the cell is left exactly as it was, so the record of
  another owner is never overwritten, and the assertion fails in a debug build.
\<close>

theorem unlock_releases_only_own_lock:
  assumes "current env = Inr me"
  shows "unlock env cell =
           (if cell = me then (Inr (), null)
            else (if ndebug env then Inr () else Inl assertion_failure, cell))"
  using assms by (simp add: unlock_def exchange_eq cassert_def)

theorem unlock_releases_only_own_lock_witness:
  "current example_process = Inr example_me \<and>
   unlock example_process example_alive = (Inl assertion_failure, example_alive) \<and>
   unlock example_process example_me = (Inr (), null)"
  using unlock_releases_only_own_lock [OF current_example, of example_alive]
    unlock_releases_only_own_lock [OF current_example, of example_me]
    current_example example_distinct
  by (simp add: example_process_def)

section \<open>Properties of the Linux probe\<close>

text \<open>The directives of the format: fields 1 to 3, eighteen skipped numbers, field 22.\<close>

lemma stat_format_eq: "stat_format =
  [Skip_d, White_space, Ordinary CHR ''('', Skip_not CHR '')'', Ordinary CHR '')'', White_space,
   Conv_c, White_space, Skip_d, White_space, Skip_d, White_space, Skip_d, White_space, Skip_d,
   White_space, Skip_d, White_space, Skip_u, White_space, Skip_u, White_space, Skip_u,
   White_space, Skip_u, White_space, Skip_u, White_space, Skip_u, White_space, Skip_u,
   White_space, Skip_d, White_space, Skip_d, White_space, Skip_d, White_space, Skip_d,
   White_space, Skip_d, White_space, Skip_d, White_space, Conv_llu]"
  by (simp add: stat_format_def isspace_def)

lemma isdigit_not_space: "isdigit c \<Longrightarrow> \<not> isspace c"
  by (auto simp add: isdigit_def isspace_def)

lemma space_facts:
  "isspace CHR '' ''" "\<not> isdigit CHR '' ''" "\<not> isspace CHR ''-''" "\<not> isdigit CHR ''-''"
  "\<not> isspace CHR ''(''" "\<not> isdigit CHR ''(''"
  by (simp_all add: isdigit_def isspace_def)

lemma take_digits:
  assumes "digits f" "ends_number rest"
  shows "takeWhile isdigit (f @ rest) = f" "dropWhile isdigit (f @ rest) = rest"
proof -
  from assms(1) have all: "\<forall>c \<in> set f. isdigit c" by (simp add: digits_def list_all_iff)
  from assms(2) have "takeWhile isdigit rest = []" "dropWhile isdigit rest = rest"
    by (cases rest; simp add: ends_number_def)+
  with all show "takeWhile isdigit (f @ rest) = f" "dropWhile isdigit (f @ rest) = rest"
    by (simp_all add: takeWhile_append2 dropWhile_append2)
qed

lemma inchar_scanning: "inchar (scanning (x # r) e) = (Some x, scanning r e)"
  by (simp add: inchar_def scanning_def)

lemma eat_whitespace_scanning:
  assumes "\<not> isspace x"
  shows "eat_whitespace (scanning (x # r) e) = scanning (x # r) e"
    and "eat_whitespace (scanning (CHR '' '' # x # r) e) = scanning (x # r) e"
  using assms
  by (simp_all add: eat_whitespace_def next_nonspace_def scanning_def ungetc_def isspace_def)

lemma stopped_before_scanning:
  "r \<noteq> [] \<Longrightarrow> stopped_before r (scanning u e) = scanning r e"
  "errno_now (stopped_before r (scanning u e)) = e"
  by (simp_all add: stopped_before_def scanning_def reach_end_def)

lemma unread_scanning: "unread (scanning s e) = s"
  by (simp add: scanning_def)

lemma set_ERANGE_scanning:
  "set_ERANGE b (scanning u e) = scanning u (if b then ERANGE else e)"
  by (simp add: set_ERANGE_def scanning_def)

lemma scan_integer_digits:
  assumes "digits f" "ends_number rest"
  shows "scan_integer (scanning (f @ rest) e) =
           Matched (False, decimal f) (stopped_before rest (scanning (tl (f @ rest)) e))"
proof -
  from assms(1) obtain c r where f: "f = c # r" and c: "isdigit c"
    by (cases f) (auto simp add: digits_def)
  from c have nc: "c \<noteq> CHR ''-''" "c \<noteq> CHR ''+''"
    by (auto simp add: isdigit_def)
  have "takeWhile isdigit (f @ rest) = f" "dropWhile isdigit (f @ rest) = rest"
    using assms by (rule take_digits)+
  with f nc assms(1) show ?thesis
    by (simp add: scan_integer_def inchar_scanning Let_def digits_def)
       (simp add: scanning_def)
qed

lemma scan_integer_number:
  assumes "number f" "ends_number rest" "rest \<noteq> []"
  shows "\<exists>v. scan_integer (scanning (f @ rest) e) = Matched v (scanning rest e)"
proof (cases "digits f")
  case True
  then have "scan_integer (scanning (f @ rest) e) =
      Matched (False, decimal f) (stopped_before rest (scanning (tl (f @ rest)) e))"
    using assms(2) by (rule scan_integer_digits)
  with assms(3) have "scan_integer (scanning (f @ rest) e) =
      Matched (False, decimal f) (scanning rest e)"
    by (simp add: stopped_before_scanning)
  then show ?thesis by blast
next
  case False
  with assms(1) obtain r where f: "f = CHR ''-'' # r" and r: "digits r"
    by (cases f) (auto simp add: number_def split: if_splits)
  have "takeWhile isdigit (r @ rest) = r" "dropWhile isdigit (r @ rest) = rest"
    using r assms(2) by (rule take_digits)+
  with f r assms(3) have "scan_integer (scanning (f @ rest) e) =
      Matched (True, decimal r) (scanning rest e)"
    by (simp add: scan_integer_def inchar_scanning Let_def digits_def)
       (simp add: scanning_def stopped_before_def)
  then show ?thesis by blast
qed

lemma number_not_space: "number f \<Longrightarrow> \<exists>c r. f = c # r \<and> \<not> isspace c"
  by (cases f) (auto simp add: number_def digits_def isdigit_not_space space_facts split: if_splits)

lemma vfscanf_skip_field:
  assumes "number f" "ends_number rest" "rest \<noteq> []" "d = Skip_d \<or> d = Skip_u"
  shows "\<exists>e'. (e' = e \<or> e' = ERANGE) \<and>
           (\<forall>ds skip n args.
              vfscanf (White_space # d # ds) (scanning (CHR '' '' # f @ rest) e) skip n args =
              vfscanf ds (scanning rest e') False n args)"
proof -
  from assms(1) obtain c r where f: "f = c # r" and c: "\<not> isspace c"
    using number_not_space by blast
  from assms(1,2,3) obtain v where v: "scan_integer (scanning (f @ rest) e) = Matched v (scanning rest e)"
    using scan_integer_number by blast
  have w: "eat_whitespace (scanning (CHR '' '' # f @ rest) e) = scanning (f @ rest) e"
    using f c by (simp add: eat_whitespace_scanning)
  show ?thesis
  proof (cases "d = Skip_d")
    case True
    let ?e = "if strtol_overflows v then ERANGE else e"
    have "\<forall>ds skip n args.
              vfscanf (White_space # d # ds) (scanning (CHR '' '' # f @ rest) e) skip n args =
              vfscanf ds (scanning rest ?e) False n args"
      using True v w by (simp add: set_ERANGE_scanning)
    moreover have "?e = e \<or> ?e = ERANGE" by simp
    ultimately show ?thesis by blast
  next
    case False
    with assms(4) have u: "d = Skip_u" by simp
    let ?e = "if strtoul_overflows v then ERANGE else e"
    have "\<forall>ds skip n args.
              vfscanf (White_space # d # ds) (scanning (CHR '' '' # f @ rest) e) skip n args =
              vfscanf ds (scanning rest ?e) False n args"
      using u v w by (simp add: set_ERANGE_scanning)
    moreover have "?e = e \<or> ?e = ERANGE" by simp
    ultimately show ?thesis by blast
  qed
qed

lemma vfscanf_skip_fields:
  assumes "length dirs = length middle" "list_all number middle"
    and "list_all (\<lambda>d. d = Skip_d \<or> d = Skip_u) dirs" "ends_number rest" "rest \<noteq> []"
    and "e = 0 \<or> e = ERANGE"
  shows "\<exists>e'. (e' = 0 \<or> e' = ERANGE) \<and>
           vfscanf (concat (map (\<lambda>d. [White_space, d]) dirs) @ ds)
             (scanning (concat (map (\<lambda>f. CHR '' '' # f) middle) @ rest) e)
             False n args =
           vfscanf ds (scanning rest e') False n args"
  using assms
proof (induction dirs middle arbitrary: e rule: list_induct2)
  case Nil
  then show ?case by auto
next
  case (Cons d dirs f middle)
  let ?rest = "concat (map (\<lambda>f. CHR '' '' # f) middle) @ rest"
  have e: "ends_number ?rest" "?rest \<noteq> []"
    using Cons.prems(3,4) by (cases middle; simp add: ends_number_def space_facts)+
  from Cons.prems e obtain e1 where e1: "e1 = e \<or> e1 = ERANGE"
    and s: "\<And>ds skip n args.
      vfscanf (White_space # d # ds) (scanning (CHR '' '' # f @ ?rest) e) skip n args =
      vfscanf ds (scanning ?rest e1) False n args"
    using vfscanf_skip_field [of f ?rest d e] by auto
  from e1 Cons.prems(5) have "e1 = 0 \<or> e1 = ERANGE" by auto
  with Cons.IH [of e1] Cons.prems obtain e' where "e' = 0 \<or> e' = ERANGE"
    and "vfscanf (concat (map (\<lambda>d. [White_space, d]) dirs) @ ds) (scanning ?rest e1) False n args =
         vfscanf ds (scanning rest e') False n args"
    by auto
  with s show ?case by auto
qed


lemma errno_now_set_ERANGE:
  "errno_now (set_ERANGE b st) = (if b then ERANGE else errno_now st)"
  by (simp add: set_ERANGE_def)

lemma stat_format_split:
  "stat_format =
     [Skip_d, White_space, Ordinary CHR ''('', Skip_not CHR '')'', Ordinary CHR '')'', White_space,
      Conv_c] @
     concat (map (\<lambda>d. [White_space, d])
       [Skip_d, Skip_d, Skip_d, Skip_d, Skip_d, Skip_u, Skip_u, Skip_u, Skip_u, Skip_u, Skip_u,
        Skip_u, Skip_d, Skip_d, Skip_d, Skip_d, Skip_d, Skip_d]) @
     [White_space, Conv_llu]"
  by (simp add: stat_format_eq)

lemma vfscanf_name_and_state:
  assumes "comm \<noteq> []" "CHR '')'' \<notin> set comm" "\<not> isspace state"
  shows "vfscanf ([Ordinary CHR ''('', Skip_not CHR '')'', Ordinary CHR '')'', White_space,
                   Conv_c] @ ds)
           (scanning ('' ('' @ comm @ '') '' @ state # tail) e) True 0 (a, b) =
         vfscanf ds (scanning tail e) False 1 (state, b)"
proof -
  obtain x xs where comm: "comm = x # xs" and x: "x \<noteq> CHR '')''"
    using assms(1,2) by (cases comm) auto
  have d: "dropWhile (\<lambda>y. y \<noteq> CHR '')'') (xs @ CHR '')'' # CHR '' '' # state # tail) =
             CHR '')'' # CHR '' '' # state # tail"
  proof -
    from assms(2) comm have "\<And>y. y \<in> set xs \<Longrightarrow> y \<noteq> CHR '')''" by auto
    then show ?thesis by (simp add: dropWhile_append2)
  qed
  have n: "next_nonspace (scanning (CHR ''('' # comm @ '') '' @ state # tail) e) =
             (Some CHR ''('', scanning (comm @ '') '' @ state # tail) e)"
    by (simp add: next_nonspace_def scanning_def space_facts)
  have 2: "vfscanf ([Ordinary CHR ''('', Skip_not CHR '')'', Ordinary CHR '')'', White_space,
                     Conv_c] @ ds)
             (scanning ('' ('' @ comm @ '') '' @ state # tail) e) True 0 (a, b) =
           vfscanf ([Skip_not CHR '')'', Ordinary CHR '')'', White_space, Conv_c] @ ds)
             (scanning (comm @ '') '' @ state # tail) e) False 0 (a, b)"
    using n by (simp add: inchar_scanning space_facts)
  have 3: "vfscanf ([Skip_not CHR '')'', Ordinary CHR '')'', White_space, Conv_c] @ ds)
             (scanning (comm @ '') '' @ state # tail) e) False 0 (a, b) =
           vfscanf ([Ordinary CHR '')'', White_space, Conv_c] @ ds)
             (scanning ('') '' @ state # tail) e) False 0 (a, b)"
    using x by (simp add: comm inchar_scanning unread_scanning d stopped_before_scanning)
  have 4: "vfscanf ([Ordinary CHR '')'', White_space, Conv_c] @ ds)
             (scanning ('') '' @ state # tail) e) False 0 (a, b) =
           vfscanf ds (scanning tail e) False 1 (state, b)"
    using assms(3) by (simp add: inchar_scanning eat_whitespace_scanning)
  from 2 3 4 show ?thesis by (simp only:)
qed

lemma vfscanf_first_three:
  assumes "number pid_field" "comm \<noteq> []" "CHR '')'' \<notin> set comm" "\<not> isspace state"
  shows "\<exists>e'. (e' = 0 \<or> e' = ERANGE) \<and>
           vfscanf ([Skip_d, White_space, Ordinary CHR ''('', Skip_not CHR '')'',
                     Ordinary CHR '')'', White_space, Conv_c] @ ds)
             (scanning (pid_field @ '' ('' @ comm @ '') '' @ state # tail) 0) False 0 (a, b) =
           vfscanf ds (scanning tail e') False 1 (state, b)"
proof -
  let ?r1 = "'' ('' @ comm @ '') '' @ state # tail"
  let ?ds = "[Ordinary CHR ''('', Skip_not CHR '')'', Ordinary CHR '')'', White_space, Conv_c] @ ds"
  from assms(1) obtain c r where p: "pid_field = c # r" and c: "\<not> isspace c"
    using number_not_space by blast
  have w: "eat_whitespace (scanning (pid_field @ ?r1) 0) = scanning (pid_field @ ?r1) 0"
    using p c by (simp add: eat_whitespace_scanning)
  obtain v where v: "scan_integer (scanning (pid_field @ ?r1) 0) = Matched v (scanning ?r1 0)"
    using scan_integer_number [OF assms(1), of ?r1 0] by (auto simp add: ends_number_def space_facts)
  define e1 where "e1 = (if strtol_overflows v then ERANGE else 0)"
  have e1: "e1 = 0 \<or> e1 = ERANGE" by (simp add: e1_def)
  have s: "set_ERANGE (strtol_overflows v) (scanning ?r1 0) = scanning ?r1 e1"
    by (simp only: set_ERANGE_scanning e1_def)
  have 1: "vfscanf (Skip_d # White_space # ?ds) (scanning (pid_field @ ?r1) 0) False 0 (a, b) =
           vfscanf ?ds (scanning ?r1 e1) True 0 (a, b)"
    by (simp only: vfscanf.simps w v conversion.case s)
  have "vfscanf ?ds (scanning ?r1 e1) True 0 (a, b) = vfscanf ds (scanning tail e1) False 1 (state, b)"
    using assms(2-4) by (rule vfscanf_name_and_state)
  with 1 e1 show ?thesis by (intro exI [of _ e1]) simp
qed

lemma vfscanf_last:
  assumes "digits starttime" "ends_number rest"
  shows "vfscanf [White_space, Conv_llu] (scanning (CHR '' '' # starttime @ rest) e) False n (a, b) =
           (int (Suc n), (a, strtoull (False, decimal starttime)),
            if strtoul_overflows (False, decimal starttime) then ERANGE else e)"
proof -
  from assms(1) obtain c r where s: "starttime = c # r" and c: "\<not> isspace c"
    by (cases starttime) (auto simp add: digits_def isdigit_not_space)
  have w: "eat_whitespace (scanning (CHR '' '' # starttime @ rest) e) = scanning (starttime @ rest) e"
    using s c by (simp add: eat_whitespace_scanning)
  have i: "scan_integer (scanning (starttime @ rest) e) =
      Matched (False, decimal starttime)
        (stopped_before rest (scanning (tl (starttime @ rest)) e))"
    using assms by (rule scan_integer_digits)
  show ?thesis
    by (simp add: w i errno_now_set_ERANGE stopped_before_scanning)
qed

lemma sscanf_stat_line:
  assumes "number pid_field" "comm \<noteq> []" "CHR '')'' \<notin> set comm" "\<not> isspace state"
    and "length middle = 18" "list_all number middle" "digits starttime" "ends_number rest"
  shows "\<exists>e'. (e' = 0 \<or> e' = ERANGE) \<and>
           sscanf (stat_line pid_field comm state middle starttime rest) stat_format 0
             (CHR 0x00, 0) =
           (2, (state, strtoull (False, decimal starttime)), e')"
proof -
  let ?dirs = "[Skip_d, Skip_d, Skip_d, Skip_d, Skip_d, Skip_u, Skip_u, Skip_u, Skip_u, Skip_u,
        Skip_u, Skip_u, Skip_d, Skip_d, Skip_d, Skip_d, Skip_d, Skip_d]"
  let ?mid = "concat (map (\<lambda>d. [White_space, d]) ?dirs)"
  let ?last = "CHR '' '' # starttime @ rest"
  let ?tail = "concat (map (\<lambda>f. CHR '' '' # f) middle) @ ?last"
  obtain e1 where e1: "e1 = 0 \<or> e1 = ERANGE"
    and s1: "vfscanf ([Skip_d, White_space, Ordinary CHR ''('', Skip_not CHR '')'',
                     Ordinary CHR '')'', White_space, Conv_c] @ (?mid @ [White_space, Conv_llu]))
             (scanning (pid_field @ '' ('' @ comm @ '') '' @ state # ?tail) 0) False 0
             (CHR 0x00, 0) =
           vfscanf (?mid @ [White_space, Conv_llu]) (scanning ?tail e1) False 1 (state, 0)"
    using vfscanf_first_three [OF assms(1-4)] by blast
  obtain e2 where e2: "e2 = 0 \<or> e2 = ERANGE"
    and s2: "vfscanf (?mid @ [White_space, Conv_llu]) (scanning ?tail e1) False 1 (state, 0) =
             vfscanf [White_space, Conv_llu] (scanning ?last e2) False 1 (state, 0)"
    using vfscanf_skip_fields [of ?dirs middle ?last e1 "[White_space, Conv_llu]" 1 "(state, 0)"]
      assms(5,6) e1
    by (auto simp add: ends_number_def space_facts)
  let ?e = "if strtoul_overflows (False, decimal starttime) then ERANGE else e2"
  have s3: "vfscanf [White_space, Conv_llu] (scanning ?last e2) False 1 (state, 0) =
            (2, (state, strtoull (False, decimal starttime)), ?e)"
    using vfscanf_last [OF assms(7,8), of e2 1 state 0] by simp
  have "sscanf (stat_line pid_field comm state middle starttime rest) stat_format 0 (CHR 0x00, 0) =
        (2, (state, strtoull (False, decimal starttime)), ?e)"
    unfolding sscanf_def stat_format_split stat_line_def
    using s1 s2 s3 by simp
  moreover have "?e = 0 \<or> ?e = ERANGE" using e2 by simp
  ultimately show ?thesis by blast
qed


lemma read_all_small:
  assumes "content \<noteq> []" and "length content < 8191"
  shows "read_all content (8 * 1024) = Some content"
  using assms by (subst read_all.simps) (simp add: Let_def min_def)

lemma start_time_of_linux_contents:
  assumes "proc_files lx (''/proc/'' @ dec_nat (unat p) @ ''/stat'') = Contents content"
    and "read_all content (8 * 1024) = Some buffer"
  shows "start_time_of_linux lx p =
           (case start_time_from_stat lx 0 buffer of
              (e, r) \<Rightarrow> (case r of Inl x \<Rightarrow> Inl x | Inr tv \<Rightarrow> Inr (e, tv)))"
  using assms by (simp add: start_time_of_linux_def with_file_contents_def)

text \<open>
  What the probe makes of the two items once both are assigned: nothing for a zombie or a
  dead process, with \<open>errno\<close> as \<open>sscanf\<close> left it; else the start time computed from the
  ticks of field 22.
\<close>

lemma linux_probe_zombie_or_dead:
  fixes env :: "'z process_scheme"
  assumes "proc_files lx (''/proc/'' @ dec_nat (unat p) @ ''/stat'') = Contents content"
    and "read_all content (8 * 1024) = Some buffer"
    and "sscanf (c_str buffer) stat_format 0 (CHR 0x00, 0) = (2, (st, ticks), e)"
    and "st = CHR ''Z'' \<or> st = CHR ''X'' \<or> st = CHR ''x''"
    and "start_time_of env = start_time_of_linux lx"
  shows "start_time_of_linux lx p = Inr (e, None)"
    and "maybe env p = Inr (None :: 'v::len word ProcessId option)"
    and "ProcessId_pid env p =
           (Inl (runtime_error
              (''can't get process start time: pid='' @ dec_int (sint p) @
               (if e \<noteq> 0 then '': '' @ strerror env e else [])))
            :: error + 'v word ProcessId)"
proof -
  from assms(3,4) have "start_time_from_stat lx 0 buffer = (e, Inr None)"
    by (auto simp add: start_time_from_stat_def)
  with assms(1,2) show l: "start_time_of_linux lx p = Inr (e, None)"
    by (simp add: start_time_of_linux_contents)
  from l assms(5) show "maybe env p = Inr (None :: 'v word ProcessId option)"
    by (simp add: maybe_def)
  from l assms(5) show "ProcessId_pid env p =
           (Inl (runtime_error
              (''can't get process start time: pid='' @ dec_int (sint p) @
               (if e \<noteq> 0 then '': '' @ strerror env e else [])))
            :: error + 'v word ProcessId)"
    by (simp add: ProcessId_pid_def value_from_def)
qed

lemma linux_probe_running:
  assumes "proc_files lx (''/proc/'' @ dec_nat (unat p) @ ''/stat'') = Contents content"
    and "read_all content (8 * 1024) = Some buffer"
    and "sscanf (c_str buffer) stat_format 0 (CHR 0x00, 0) = (2, (st, ticks), e)"
    and "st \<noteq> CHR ''Z''" "st \<noteq> CHR ''X''" "st \<noteq> CHR ''x''"
    and "sysconf_SC_CLK_TCK lx \<noteq> - 1" "(word_of_int (sysconf_SC_CLK_TCK lx) :: 64 word) \<noteq> 0"
  shows "start_time_of_linux lx p =
           Inr (e, Some
             \<lparr>tv_sec = sint (ticks div word_of_int (sysconf_SC_CLK_TCK lx) +
                              word_of_int (boot_time lx)),
              tv_usec = sint ((ticks mod word_of_int (sysconf_SC_CLK_TCK lx)) *
                              (1000000 div word_of_int (sysconf_SC_CLK_TCK lx)))\<rparr>)"
proof -
  from assms(3-8) have "start_time_from_stat lx 0 buffer =
      (e, Inr (Some
             \<lparr>tv_sec = sint (ticks div word_of_int (sysconf_SC_CLK_TCK lx) +
                              word_of_int (boot_time lx)),
              tv_usec = sint ((ticks mod word_of_int (sysconf_SC_CLK_TCK lx)) *
                              (1000000 div word_of_int (sysconf_SC_CLK_TCK lx)))\<rparr>))"
    by (simp add: start_time_from_stat_def Let_def)
  with assms(1,2) show ?thesis
    by (simp add: start_time_of_linux_contents)
qed

lemmas scan_defs = sscanf_def scanning_def stat_format_eq scan_integer_def inchar_def
  ungetc_def next_nonspace_def eat_whitespace_def stopped_before_def reach_end_def
  set_ERANGE_def strtol_overflows_def strtoul_overflows_def strtoull_def scanf_stops_def
  ERANGE_def isspace_def isdigit_def decimal_def digit_value_def Let_def

lemma example_stat_read:
  "read_all (example_stat ''4242'' ''sleep'' CHR ''Z'' ''123456'') (8 * 1024) =
     Some (example_stat ''4242'' ''sleep'' CHR ''Z'' ''123456'')"
  "read_all (example_stat ''4243'' ''sleep'' CHR ''S'' ''123456'') (8 * 1024) =
     Some (example_stat ''4243'' ''sleep'' CHR ''S'' ''123456'')"
  "read_all (example_stat ''102'' ''a) b'' CHR ''S'' ''123456'') (8 * 1024) =
     Some (example_stat ''102'' ''a) b'' CHR ''S'' ''123456'')"
  "read_all (example_stat ''111'' ''defunct'' CHR ''Z'' ''99999999999999999999999'') (8 * 1024) =
     Some (example_stat ''111'' ''defunct'' CHR ''Z'' ''99999999999999999999999'')"
  by (rule read_all_small; simp add: example_stat_def stat_line_def example_middle_def)+

lemma example_stat_path:
  "proc_files example_linux (''/proc/'' @ dec_nat (unat (4242 :: pid_t)) @ ''/stat'') =
     Contents (example_stat ''4242'' ''sleep'' CHR ''Z'' ''123456'')"
  "proc_files example_linux (''/proc/'' @ dec_nat (unat (4243 :: pid_t)) @ ''/stat'') =
     Contents (example_stat ''4243'' ''sleep'' CHR ''S'' ''123456'')"
  "proc_files example_linux (''/proc/'' @ dec_nat (unat (102 :: pid_t)) @ ''/stat'') =
     Contents (example_stat ''102'' ''a) b'' CHR ''S'' ''123456'')"
  "proc_files example_linux (''/proc/'' @ dec_nat (unat (111 :: pid_t)) @ ''/stat'') =
     Contents (example_stat ''111'' ''defunct'' CHR ''Z'' ''99999999999999999999999'')"
  by (simp_all add: example_linux_def example_files_def dec_nat.simps)

lemma example_c_str:
  assumes "CHR 0x00 \<notin> set p" "CHR 0x00 \<notin> set comm" "st \<noteq> CHR 0x00" "CHR 0x00 \<notin> set t"
  shows "c_str (example_stat p comm st t) = example_stat p comm st t"
  using assms
  by (auto simp add: c_str_def example_stat_def stat_line_def example_middle_def
      takeWhile_eq_all_conv)

lemma example_scans:
  "sscanf (example_stat ''4242'' ''sleep'' CHR ''Z'' ''123456'') stat_format 0 (CHR 0x00, 0) =
     (2, (CHR ''Z'', 123456), 0)"
  "sscanf (example_stat ''4243'' ''sleep'' CHR ''S'' ''123456'') stat_format 0 (CHR 0x00, 0) =
     (2, (CHR ''S'', 123456), 0)"
  "sscanf (example_stat ''102'' ''a) b'' CHR ''S'' ''123456'') stat_format 0 (CHR 0x00, 0) =
     (1, (CHR ''b'', 0), 0)"
  "sscanf (example_stat ''111'' ''defunct'' CHR ''Z'' ''99999999999999999999999'') stat_format 0
     (CHR 0x00, 0) = (2, (CHR ''Z'', - 1), 34)"
  by (simp_all add: scan_defs example_stat_def stat_line_def example_middle_def)


text \<open>
  On a line of the kernel's format whose command name is not empty and has no closing
  parenthesis the probe reads the state and field 22 and reports the start time made from
  field 22, unless the state is that of a zombie or a dead process.
\<close>

lemma linux_probe_on_plain_name:
  assumes "proc_files lx (''/proc/'' @ dec_nat (unat p) @ ''/stat'') = Contents content"
    and "read_all content (8 * 1024) = Some buffer"
    and "c_str buffer = stat_line pid_field comm state middle starttime rest"
    and "number pid_field" "comm \<noteq> []" "CHR '')'' \<notin> set comm" "\<not> isspace state"
    and "length middle = 18" "list_all number middle" "digits starttime" "ends_number rest"
    and "sysconf_SC_CLK_TCK lx \<noteq> - 1" "(word_of_int (sysconf_SC_CLK_TCK lx) :: 64 word) \<noteq> 0"
  shows "\<exists>e. (e = 0 \<or> e = ERANGE) \<and>
           start_time_of_linux lx p =
             Inr (e,
                  if state = CHR ''Z'' \<or> state = CHR ''X'' \<or> state = CHR ''x'' then None
                  else Some
                    \<lparr>tv_sec = sint (strtoull (False, decimal starttime) div
                                     word_of_int (sysconf_SC_CLK_TCK lx) +
                                     word_of_int (boot_time lx)),
                     tv_usec = sint ((strtoull (False, decimal starttime) mod
                                      word_of_int (sysconf_SC_CLK_TCK lx)) *
                                     (1000000 div word_of_int (sysconf_SC_CLK_TCK lx)))\<rparr>)"
proof -
  obtain e where e: "e = 0 \<or> e = ERANGE"
    and s: "sscanf (c_str buffer) stat_format 0 (CHR 0x00, 0) =
              (2, (state, strtoull (False, decimal starttime)), e)"
    using sscanf_stat_line [OF assms(4-11)] assms(3) by auto
  have "start_time_from_stat lx 0 buffer =
          (e, Inr (if state = CHR ''Z'' \<or> state = CHR ''X'' \<or> state = CHR ''x'' then None
                  else Some
                    \<lparr>tv_sec = sint (strtoull (False, decimal starttime) div
                                     word_of_int (sysconf_SC_CLK_TCK lx) +
                                     word_of_int (boot_time lx)),
                     tv_usec = sint ((strtoull (False, decimal starttime) mod
                                      word_of_int (sysconf_SC_CLK_TCK lx)) *
                                     (1000000 div word_of_int (sysconf_SC_CLK_TCK lx)))\<rparr>))"
    using s assms(12,13) by (simp add: start_time_from_stat_def Let_def)
  with assms(1,2) have "start_time_of_linux lx p =
             Inr (e,
                  if state = CHR ''Z'' \<or> state = CHR ''X'' \<or> state = CHR ''x'' then None
                  else Some
                    \<lparr>tv_sec = sint (strtoull (False, decimal starttime) div
                                     word_of_int (sysconf_SC_CLK_TCK lx) +
                                     word_of_int (boot_time lx)),
                     tv_usec = sint ((strtoull (False, decimal starttime) mod
                                      word_of_int (sysconf_SC_CLK_TCK lx)) *
                                     (1000000 div word_of_int (sysconf_SC_CLK_TCK lx)))\<rparr>)"
    by (simp add: start_time_of_linux_contents)
  with e show ?thesis by blast
qed

lemma example_linux_env:
  "start_time_of example_linux_process = start_time_of_linux example_linux"
  "strerror example_linux_process 34 = ''Numerical result out of range''"
  by (simp_all add: example_linux_process_def example_strerror_def)

text \<open>The zombie of the example has no start time; the sleeping process has one.\<close>

lemma example_zombie:
  "start_time_of_linux example_linux 4242 = Inr (0, None)"
proof -
  have s: "sscanf (c_str (example_stat ''4242'' ''sleep'' CHR ''Z'' ''123456'')) stat_format 0
             (CHR 0x00, 0) = (2, (CHR ''Z'', 123456), 0)"
    by (simp add: example_c_str example_scans)
  show ?thesis
    by (rule linux_probe_zombie_or_dead(1) [OF example_stat_path(1) example_stat_read(1) s _
          example_linux_env(1)]) simp
qed

lemma example_running:
  "start_time_of_linux example_linux 4243 =
     Inr (0, Some \<lparr>tv_sec = 1704068434, tv_usec = 560000\<rparr>)"
  using linux_probe_running [OF example_stat_path(2) example_stat_read(2),
      of "CHR ''S''" 123456 0]
  by (simp add: example_c_str example_scans) (simp add: example_linux_def)

text \<open>
  A zombie whose field 22 is out of range: \<open>sscanf\<close> leaves \<open>ERANGE\<close> in \<open>errno\<close>, and
  the message of the constructor ends with its text.
\<close>

lemma example_zombie_out_of_range:
  "start_time_of_linux example_linux 111 = Inr (34, None)"
  "ProcessId_pid example_linux_process 111 =
     (Inl (runtime_error ''can't get process start time: pid=111: Numerical result out of range'')
      :: error + 64 word ProcessId)"
proof -
  have s: "sscanf (c_str (example_stat ''111'' ''defunct'' CHR ''Z'' ''99999999999999999999999''))
             stat_format 0 (CHR 0x00, 0) = (2, (CHR ''Z'', - 1), 34)"
    by (simp add: example_c_str example_scans)
  have d: "dec_int 111 = ''111''"
    by (simp add: dec_int_def dec_nat.simps)
  show "start_time_of_linux example_linux 111 = Inr (34, None)"
    by (rule linux_probe_zombie_or_dead(1) [OF example_stat_path(4) example_stat_read(4) s _
          example_linux_env(1)]) simp
  show "ProcessId_pid example_linux_process 111 =
     (Inl (runtime_error ''can't get process start time: pid=111: Numerical result out of range'')
      :: error + 64 word ProcessId)"
    using linux_probe_zombie_or_dead(3) [where 'v = 64, OF example_stat_path(4)
        example_stat_read(4) s _ example_linux_env(1)]
    by (simp add: d example_linux_env)
qed

text \<open>
  C9. On Linux the start-time probe is to read field 3 (the state) and field 22 (the
  start time in clock ticks) of \<open>/proc/<pid>/stat\<close>, and to report no start time when
  the state is that of a zombie or a dead process. The format takes the command name to
  end at the first closing parenthesis. Process 102 sleeps and runs a program named
  \<open>a) b\<close>, so its line starts \<open>102 (a) b) S 1\<close>: the probe takes \<open>b\<close> for the state,
  fails on the parenthesis that follows, and having assigned one item instead of two
  reports no start time for a live process; \<open>maybe\<close> is empty and the constructor throws.
  The same line with the name \<open>sleep\<close> gives the state \<open>S\<close> and the start time of
  field 22.
\<close>

theorem linux_probe_misreads_name_with_parenthesis:
  "proc_files example_linux (''/proc/'' @ dec_nat (unat (102 :: pid_t)) @ ''/stat'') =
     Contents (example_stat ''102'' ''a) b'' CHR ''S'' ''123456'') \<and>
   example_stat ''102'' ''a) b'' CHR ''S'' ''123456'' =
     ''102 (a) b) S 1 4242 4242 0 -1 4194304 91 0 0 0 0 0 0 0 20 0 1 0 123456'' @
     '' 8192000 180 18446744073709551615 1 1'' \<and>
   sscanf (c_str (example_stat ''102'' ''a) b'' CHR ''S'' ''123456'')) stat_format 0
     (CHR 0x00, 0) = (1, (CHR ''b'', 0), 0) \<and>
   start_time_of_linux example_linux 102 = Inr (0, None) \<and>
   maybe example_linux_process 102 = Inr (None :: 64 word ProcessId option) \<and>
   ProcessId_pid example_linux_process 102 =
     (Inl (runtime_error ''can't get process start time: pid=102'')
      :: error + 64 word ProcessId) \<and>
   sscanf (c_str (example_stat ''4243'' ''sleep'' CHR ''S'' ''123456'')) stat_format 0
     (CHR 0x00, 0) = (2, (CHR ''S'', 123456), 0) \<and>
   start_time_of_linux example_linux 4243 =
     Inr (0, Some \<lparr>tv_sec = 1704068434, tv_usec = 560000\<rparr>)"
proof -
  have s: "sscanf (c_str (example_stat ''102'' ''a) b'' CHR ''S'' ''123456'')) stat_format 0
             (CHR 0x00, 0) = (1, (CHR ''b'', 0), 0)"
    by (simp add: example_c_str example_scans)
  have f: "start_time_from_stat example_linux 0 (example_stat ''102'' ''a) b'' CHR ''S'' ''123456'') =
             (0, Inr None)"
    using s by (simp add: start_time_from_stat_def)
  have l: "start_time_of_linux example_linux 102 = Inr (0, None)"
    using f by (simp add: start_time_of_linux_contents [OF example_stat_path(3) example_stat_read(3)])
  have d: "dec_int 102 = ''102''"
    by (simp add: dec_int_def dec_nat.simps)
  have m: "maybe example_linux_process 102 = Inr (None :: 64 word ProcessId option)"
    using l by (simp add: maybe_def example_linux_env)
  have c: "ProcessId_pid example_linux_process 102 =
     (Inl (runtime_error ''can't get process start time: pid=102'') :: error + 64 word ProcessId)"
    using l by (simp add: ProcessId_pid_def example_linux_env value_from_def d)
  have t: "example_stat ''102'' ''a) b'' CHR ''S'' ''123456'' =
     ''102 (a) b) S 1 4242 4242 0 -1 4194304 91 0 0 0 0 0 0 0 20 0 1 0 123456'' @
     '' 8192000 180 18446744073709551615 1 1''"
    by (simp add: example_stat_def stat_line_def example_middle_def)
  have r: "sscanf (c_str (example_stat ''4243'' ''sleep'' CHR ''S'' ''123456'')) stat_format 0
     (CHR 0x00, 0) = (2, (CHR ''S'', 123456), 0)"
    by (simp add: example_c_str example_scans)
  from example_stat_path(3) t s l m c r example_running show ?thesis
    by (simp only: simp_thms)
qed

end
